theory Spec2Isabelle
  imports Main "HOL-Library.AList"
begin

text \<open>
  A model of \<open>main.js\<close>, the bot that takes \<open>/link\<close> requests, shows them to the admins
  with an approve and a reject button, and keeps the requests and the approved links in
  two JSON files.

  The module's variables \<open>pending\<close> and \<open>accounts\<close> and the two files are a record that
  each handler takes and returns. What a handler asks of the outside world (the clock, the
  random draw, the chat platform, the file system) is an argument of the handler, so that
  every exception the source catches is a branch of the model. The event loop runs one
  handler at a time, but a handler that awaits lets the next one in: the button handler,
  which tests before its await and writes after it, is given in these two parts, so that
  two presses can be handled in turn or overlapping. The reply of a handler is part of its
  result and is taken to reach the invoker; the log lines, which nothing reads back, are
  left out.
\<close>

section \<open>Persistent store: \<open>readJson\<close> and \<open>writeJson\<close>\<close>

text \<open>
  The values \<open>JSON.parse\<close> can return. Numbers are kept as integers: the only thing
  \<open>readJson\<close> asks of a number is whether it is zero.
\<close>

datatype json =
    JNull
  | JBool bool
  | JNum int
  | JStr string
  | JArr "json list"
  | JObj "(string \<times> json) list"

text \<open>
  What the three primitives used by \<open>readJson\<close> find at a path:
  \<^item> \<open>NoFile\<close>: \<open>fs.existsSync\<close> is false;
  \<^item> \<open>ReadFails\<close>: the file exists and \<open>fs.readFileSync\<close> throws;
  \<^item> \<open>EmptyText\<close>: the file holds the empty string, so \<open>'null'\<close> is parsed in its place;
  \<^item> \<open>BadJson\<close>: the text is not JSON and \<open>JSON.parse\<close> throws;
  \<^item> \<open>Holds j\<close>: the text parses to the value \<open>j\<close>.
\<close>

datatype file_state = NoFile | ReadFails | EmptyText | BadJson | Holds json

text \<open>JavaScript truthiness of a parsed value, as the operator \<open>||\<close> tests it.\<close>

fun truthy :: "json \<Rightarrow> bool" where
  "truthy JNull = False"
| "truthy (JBool b) = b"
| "truthy (JNum n) = (n \<noteq> 0)"
| "truthy (JStr s) = (s \<noteq> [])"
| "truthy (JArr xs) = True"
| "truthy (JObj kvs) = True"

text \<open>
  \<open>readJson(filePath, defaultValue)\<close>: every exception of the body is caught and answered
  with the default; a parsed value that is falsy is replaced by the default as well.
\<close>

fun readJson :: "file_state \<Rightarrow> json \<Rightarrow> json" where
  "readJson NoFile defaultValue = defaultValue"
| "readJson ReadFails defaultValue = defaultValue"
| "readJson EmptyText defaultValue = (if truthy JNull then JNull else defaultValue)"
| "readJson BadJson defaultValue = defaultValue"
| "readJson (Holds j) defaultValue = (if truthy j then j else defaultValue)"

text \<open>
  \<open>writeJson(filePath, data)\<close>: the file is overwritten with the serialised data; when
  \<open>fs.writeFileSync\<close> throws the exception is caught and the file is taken to be as it was.
  The flag says whether the write went through.
\<close>

definition writeJson :: "bool \<Rightarrow> json \<Rightarrow> file_state \<Rightarrow> file_state" where
  "writeJson ok data f = (if ok then Holds data else f)"

text \<open>The two defaults of the module: \<open>[]\<close> for the requests, \<open>{}\<close> for the accounts.\<close>

definition pending_default :: json where
  "pending_default = JArr []"

definition accounts_default :: json where
  "accounts_default = JObj []"

text \<open>A collection is an array or an object.\<close>

fun is_collection :: "json \<Rightarrow> bool" where
  "is_collection (JArr xs) = True"
| "is_collection (JObj kvs) = True"
| "is_collection j = False"

section \<open>Strings\<close>

text \<open>
  The white space \<open>String.prototype.trim\<close> strips, among the code units below 256:
  tab, line feed, vertical tab, form feed, carriage return, space and no-break space.
\<close>

definition isWhiteSpace :: "char \<Rightarrow> bool" where
  "isWhiteSpace c = (of_char c \<in> {9, 10, 11, 12, 13, 32, 160 :: nat})"

definition trim :: "string \<Rightarrow> string" where
  "trim s = rev (dropWhile isWhiteSpace (rev (dropWhile isWhiteSpace s)))"

text \<open>\<open>str.startsWith(prefix)\<close>.\<close>

definition startsWith :: "string \<Rightarrow> string \<Rightarrow> bool" where
  "startsWith str pre = (take (length pre) str = pre)"

text \<open>
  \<open>str.split(sep)\<close> for a separator of one character: the pieces between the
  separators, in order; the empty string gives one empty piece.
\<close>

fun splitStr :: "char \<Rightarrow> string \<Rightarrow> string list" where
  "splitStr sep [] = [[]]"
| "splitStr sep (c # cs) =
     (if c = sep then [] # splitStr sep cs
      else (case splitStr sep cs of
              [] \<Rightarrow> [[c]]
            | w # ws \<Rightarrow> (c # w) # ws))"

text \<open>
  The decimal digits of a non-negative integer, as a template literal prints it
  (\<open>Date.now()\<close> and \<open>Math.floor(...)\<close> are integers far below the exponent notation).
\<close>

definition digit :: "nat \<Rightarrow> char" where
  "digit d = ''0123456789'' ! (d mod 10)"

fun decimal :: "nat \<Rightarrow> string" where
  "decimal n = (if n < 10 then [digit n] else decimal (n div 10) @ [digit (n mod 10)])"

declare decimal.simps [simp del]

text \<open>A string-valued slot that may be \<open>null\<close> or \<open>undefined\<close>: truthy when set and not empty.\<close>

fun truthyStr :: "string option \<Rightarrow> bool" where
  "truthyStr None = False"
| "truthyStr (Some s) = (s \<noteq> [])"

section \<open>Data model\<close>

text \<open>A link request, as the \<open>/link\<close> handler builds it and the button handler extends it.\<close>

record request =
  id_req :: string
  requesterId :: string
  requesterTag :: string
  targetId :: string
  targetTag :: string
  ign :: string
  status :: string
  createdAt :: nat
  messageId :: "string option"
  resolvedBy :: "string option"
  resolvedAt :: "nat option"

text \<open>An entry of \<open>accounts\<close>: \<open>{ username, id, igns }\<close>.\<close>

record account =
  username :: string
  id_acc :: string
  igns :: "string list"

text \<open>
  The module's mutable state: the two collections in memory and their two files.
  \<open>accounts\<close> is an object keyed by Discord ids; its keys keep their insertion order, so
  it is an association list.
\<close>

record state =
  pending :: "request list"
  accounts :: "(string \<times> account) list"
  PENDING_FILE :: file_state
  ACCOUNTS_FILE :: file_state

record config =
  ADMIN_CHANNEL_ID :: "string option"
  ADMIN_ROLE_IDS :: "string list"

subsection \<open>What \<open>JSON.stringify\<close> writes\<close>

definition request_json :: "request \<Rightarrow> json" where
  "request_json r = JObj (
     [(''id'', JStr (id_req r)),
      (''requesterId'', JStr (requesterId r)),
      (''requesterTag'', JStr (requesterTag r)),
      (''targetId'', JStr (targetId r)),
      (''targetTag'', JStr (targetTag r)),
      (''ign'', JStr (ign r)),
      (''status'', JStr (status r)),
      (''createdAt'', JNum (int (createdAt r))),
      (''messageId'', (case messageId r of None \<Rightarrow> JNull | Some m \<Rightarrow> JStr m))]
     @ (case resolvedBy r of None \<Rightarrow> [] | Some u \<Rightarrow> [(''resolvedBy'', JStr u)])
     @ (case resolvedAt r of None \<Rightarrow> [] | Some t \<Rightarrow> [(''resolvedAt'', JNum (int t))]))"

definition pending_json :: "request list \<Rightarrow> json" where
  "pending_json ps = JArr (map request_json ps)"

definition account_json :: "account \<Rightarrow> json" where
  "account_json a = JObj
     [(''username'', JStr (username a)),
      (''id'', JStr (id_acc a)),
      (''igns'', JArr (map JStr (igns a)))]"

definition accounts_json :: "(string \<times> account) list \<Rightarrow> json" where
  "accounts_json acc = JObj (map (\<lambda>(k, a). (k, account_json a)) acc)"

section \<open>The chat platform, as the handlers see it\<close>

record user =
  id_user :: string
  username_user :: string
  discriminator :: string

datatype permission = Administrator | ManageGuild | OtherPermission nat

text \<open>
  A guild member: the ids of the roles in \<open>member.roles.cache\<close> and the permission flags,
  either of which may be missing.
\<close>

record member =
  roles_cache :: "string list option"
  permissions :: "permission list option"

text \<open>
  \<open>member.permissions.has(flag)\<close>: with the library's default, the Administrator flag
  grants every permission.
\<close>

definition has :: "permission list \<Rightarrow> permission \<Rightarrow> bool" where
  "has perms flag = (Administrator \<in> set perms \<or> flag \<in> set perms)"

record command =
  commandName :: string
  command_user :: user
  option_ign :: string
  option_account :: "user option"

record button =
  customId :: string
  button_user :: user
  interaction_member :: "member option"
  guildId :: "string option"

datatype interaction = ChatInputCommand command | Button button | OtherInteraction

text \<open>What \<open>client.channels.fetch(ADMIN_CHANNEL_ID)\<close> gives: nothing (or an exception), a
  channel that is not text based, or a text channel.\<close>

datatype channel_result = NoChannel | NotTextBased | TextBased

text \<open>
  The answers of the outside world during one run of the interaction handler:
  the clock, the random draw \<open>Math.floor(Math.random()*10000)\<close>, whether each
  \<open>fs.writeFileSync\<close> goes through, the channel fetch, the id of the sent message
  (\<open>None\<close> when \<open>send\<close> throws), the member fetched when the interaction carries none,
  and whether the admin message is found and takes the edit.
\<close>

record env =
  now_reqId :: nat
  random_draw :: nat
  now_createdAt :: nat
  now_resolvedAt :: nat
  pending_write_ok :: bool
  pending_rewrite_ok :: bool
  accounts_write_ok :: bool
  channel :: channel_result
  send_result :: "string option"
  fetched_member :: "member option"
  message_edited :: bool

text \<open>
  \<open>createEmbedForReq(req, status)\<close>: the embed shows the request's fields and the given
  status; it is kept as the pair of the two arguments. The builder throws when the value
  of a field is empty or longer than 1024 characters, its name longer than 256, or the
  footer longer than 2048: then there is no embed. The values are the texts of the source;
  the emoji that opens the decision, one code unit, is written as one character.
\<close>

datatype embed = Embed request string

definition embedFields :: "request \<Rightarrow> string \<Rightarrow> (string \<times> string) list" where
  "embedFields req st =
     [(''Requester'', requesterTag req @ '' (<@'' @ requesterId req @ ''>)''),
      (''Target'', targetTag req @ '' (<@'' @ targetId req @ ''>)''),
      (''IGN'', [CHR 0x60] @ ign req @ [CHR 0x60])]
     @ (if st = ''approved'' \<and> truthyStr (resolvedBy req)
        then [(''Decision'', ''+ Approved by <@'' @ the (resolvedBy req) @ ''>'')]
        else if st = ''rejected'' \<and> truthyStr (resolvedBy req)
        then [(''Decision'', ''x Rejected by <@'' @ the (resolvedBy req) @ ''>'')]
        else [])"

definition validField :: "string \<times> string \<Rightarrow> bool" where
  "validField = (\<lambda>(name, v). 1 \<le> length name \<and> length name \<le> 256
                               \<and> 1 \<le> length v \<and> length v \<le> 1024)"

definition createEmbedForReq :: "request \<Rightarrow> string \<Rightarrow> embed option" where
  "createEmbedForReq req st =
     (if list_all validField (embedFields req st)
         \<and> length (''Request ID: '' @ id_req req) \<le> 2048
      then Some (Embed req st) else None)"

text \<open>A button of an action row: its custom id and whether it is disabled.\<close>

type_synonym component = "string \<times> bool"

definition actionRow :: "string \<Rightarrow> bool \<Rightarrow> component list" where
  "actionRow reqId disabled =
     [(''link_accept_'' @ reqId, disabled), (''link_reject_'' @ reqId, disabled)]"

text \<open>What a handler does in the admin channel.\<close>

datatype channel_action =
    Send embed "component list"
  | Edit "string option" embed "component list"

text \<open>
  The branch a handler run ends in. \<open>Ignored\<close> returns without a reply; every other branch
  sends one ephemeral reply, whose text is \<open>reply_content\<close>.
\<close>

datatype outcome =
    Ignored
  | NotConfigured
  | ChannelMissing
  | Submitted
  | HandlerError
  | NotFound
  | AlreadyResolved string
  | Unauthorized
  | Approved string string
  | Rejected string

fun reply_content :: "outcome \<Rightarrow> string option" where
  "reply_content Ignored = None"
| "reply_content NotConfigured =
     Some ''AdminLogs not configured on the bot. Contact the bot owner.''"
| "reply_content ChannelMissing =
     Some ''AdminLogs channel not found or not a text channel. Contact the bot owner.''"
| "reply_content Submitted = Some ''Link request submitted to admins.''"
| "reply_content HandlerError = Some ''An error occurred handling that interaction.''"
| "reply_content NotFound = Some ''Request not found (may have expired).''"
| "reply_content (AlreadyResolved st) = Some (''This request was already '' @ st @ ''.'')"
| "reply_content Unauthorized =
     Some ''You do not have permission to approve or reject link requests.''"
| "reply_content (Approved tag name) =
     Some (''Approved. '' @ tag @ '' linked to IGN '' @ name)"
| "reply_content (Rejected tag) = Some (''Rejected request for '' @ tag @ ''.'')"

type_synonym result = "state \<times> outcome \<times> channel_action list"

section \<open>The \<open>/link\<close> command\<close>

text \<open>The id of a new request: \<open>`${Date.now()}-${Math.floor(Math.random()*10000)}`\<close>.\<close>

definition mkReqId :: "nat \<Rightarrow> nat \<Rightarrow> string" where
  "mkReqId now draw = decimal now @ ''-'' @ decimal draw"

definition userTag :: "user \<Rightarrow> string" where
  "userTag u = username_user u @ ''#'' @ discriminator u"

text \<open>The record the handler builds from the command, the clock and the random draw.\<close>

definition newRequest :: "env \<Rightarrow> command \<Rightarrow> request" where
  "newRequest e c =
     (let targetUser = (case option_account c of Some u \<Rightarrow> u | None \<Rightarrow> command_user c)
      in \<lparr> id_req = mkReqId (now_reqId e) (random_draw e),
           requesterId = id_user (command_user c),
           requesterTag = userTag (command_user c),
           targetId = id_user targetUser,
           targetTag = userTag targetUser,
           ign = trim (option_ign c),
           status = ''pending'',
           createdAt = now_createdAt e,
           messageId = None,
           resolvedBy = None,
           resolvedAt = None \<rparr>)"

text \<open>
  The chat-input branch of the interaction handler. The record is pushed and the file
  written before anything is sent; when the embed cannot be built or \<open>send\<close> throws, the
  handler's outer \<open>catch\<close> replies with the error text and the record stays as pushed.
\<close>

definition handleCommand :: "config \<Rightarrow> env \<Rightarrow> command \<Rightarrow> state \<Rightarrow> result" where
  "handleCommand cfg e c s =
     (if commandName c \<noteq> ''link'' then (s, Ignored, [])
      else
        let req = newRequest e c;
            s1 = s\<lparr> pending := pending s @ [req],
                    PENDING_FILE := writeJson (pending_write_ok e)
                                      (pending_json (pending s @ [req])) (PENDING_FILE s) \<rparr>
        in if \<not> truthyStr (ADMIN_CHANNEL_ID cfg) then (s1, NotConfigured, [])
           else (case channel e of
                   NoChannel \<Rightarrow> (s1, ChannelMissing, [])
                 | NotTextBased \<Rightarrow> (s1, ChannelMissing, [])
                 | TextBased \<Rightarrow>
                     (case createEmbedForReq req ''pending'' of
                        None \<Rightarrow> (s1, HandlerError, [])
                      | Some em \<Rightarrow>
                          (case send_result e of
                             None \<Rightarrow> (s1, HandlerError, [])
                           | Some sent \<Rightarrow>
                               let req' = req\<lparr> messageId := Some sent \<rparr>;
                                   s2 = s1\<lparr> pending := pending s @ [req'],
                                            PENDING_FILE := writeJson (pending_rewrite_ok e)
                                              (pending_json (pending s @ [req']))
                                              (PENDING_FILE s1) \<rparr>
                               in (s2, Submitted,
                                   [Send em (actionRow (id_req req) False)])))))"

section \<open>The approve and reject buttons\<close>

text \<open>
  \<open>const [ , action, reqId ] = cid.split('_')\<close>, after the two \<open>startsWith\<close> tests. With
  fewer than three pieces the two names would be undefined; the tests exclude that.
\<close>

definition parseCustomId :: "string \<Rightarrow> (string \<times> string) option" where
  "parseCustomId cid =
     (if \<not> startsWith cid ''link_accept_'' \<and> \<not> startsWith cid ''link_reject_'' then None
      else (case splitStr (CHR ''_'') cid of
              _ # action # reqId # _ \<Rightarrow> Some (action, reqId)
            | _ \<Rightarrow> None))"

text \<open>The member whose roles are checked: the interaction's, or the one fetched from the guild.\<close>

definition resolverMember :: "env \<Rightarrow> button \<Rightarrow> member option" where
  "resolverMember e b =
     (case interaction_member b of
        Some m \<Rightarrow> Some m
      | None \<Rightarrow> if truthyStr (guildId b) then fetched_member e else None)"

definition hasAdmin :: "config \<Rightarrow> member option \<Rightarrow> bool" where
  "hasAdmin cfg m =
     (if ADMIN_ROLE_IDS cfg \<noteq> [] then
        (case m of
           None \<Rightarrow> False
         | Some mem \<Rightarrow>
             (case roles_cache mem of
                None \<Rightarrow> False
              | Some rs \<Rightarrow> (\<exists>r \<in> set rs. r \<in> set (ADMIN_ROLE_IDS cfg))))
      else
        (case m of
           None \<Rightarrow> False
         | Some mem \<Rightarrow>
             (case permissions mem of
                None \<Rightarrow> False
              | Some ps \<Rightarrow> has ps Administrator \<or> has ps ManageGuild)))"

text \<open>
  \<open>req\<close> is the first element of \<open>pending\<close> with the id; assigning to its fields changes
  that element of the array.
\<close>

fun updateFirst :: "('a \<Rightarrow> bool) \<Rightarrow> ('a \<Rightarrow> 'a) \<Rightarrow> 'a list \<Rightarrow> 'a list" where
  "updateFirst P f [] = []"
| "updateFirst P f (x # xs) = (if P x then f x # xs else x # updateFirst P f xs)"

definition settle :: "string \<Rightarrow> string \<Rightarrow> nat \<Rightarrow> request \<Rightarrow> request" where
  "settle st who t req = req\<lparr> status := st, resolvedBy := Some who, resolvedAt := Some t \<rparr>"

text \<open>The account the link goes to: \<open>req.targetId || req.requesterId\<close>.\<close>

definition linkTarget :: "request \<Rightarrow> string" where
  "linkTarget req = (if targetId req \<noteq> [] then targetId req else requesterId req)"

text \<open>
  The upsert of the accept path: the entry of the target, or a new one with no names;
  the name is pushed when \<open>includes\<close> does not find it; the entry is stored under the key.
\<close>

definition linkIgn :: "request \<Rightarrow> (string \<times> account) list \<Rightarrow> (string \<times> account) list" where
  "linkIgn req acc =
     (let entry = (case map_of acc (linkTarget req) of
                     Some a \<Rightarrow> a
                   | None \<Rightarrow> \<lparr> username = targetTag req, id_acc = linkTarget req, igns = [] \<rparr>);
          entry' = (if ign req \<in> set (igns entry) then entry
                    else entry\<lparr> igns := igns entry @ [ign req] \<rparr>)
      in AList.update (linkTarget req) entry' acc)"

text \<open>
  The edit of the admin message, attempted when the channel was fetched; it sits in a
  \<open>try\<close> of its own, so an embed that cannot be built only means no edit.
\<close>

definition editMessage :: "env \<Rightarrow> request \<Rightarrow> string \<Rightarrow> channel_action list" where
  "editMessage e req st =
     (if channel e \<noteq> NoChannel \<and> message_edited e
      then (case createEmbedForReq req st of
              None \<Rightarrow> []
            | Some em \<Rightarrow> [Edit (messageId req) em (actionRow (id_req req) True)])
      else [])"

text \<open>
  The button branch, from the lookup of the request on, in the two parts the source runs
  it in. The first part (lines 223 to 258) finds the request, tests its status and the
  rights of the resolver, and replies when one of the tests fails. The handler then
  awaits the fetch of the admin channel (line 260; before the test of the rights it may
  await the fetch of the member, line 239).
\<close>

definition resolveCheck :: "config \<Rightarrow> env \<Rightarrow> button \<Rightarrow> string \<Rightarrow> state \<Rightarrow> outcome option" where
  "resolveCheck cfg e b reqId s =
     (case List.find (\<lambda>p. id_req p = reqId) (pending s) of
        None \<Rightarrow> Some NotFound
      | Some req \<Rightarrow>
          if status req \<noteq> ''pending'' then Some (AlreadyResolved (status req))
          else if \<not> hasAdmin cfg (resolverMember e b) then Some Unauthorized
          else None)"

text \<open>
  The second part (lines 260 to 305) writes, without a second look at the status. \<open>req\<close>
  is still the object the first part found: requests are never removed or reordered and
  ids never change, so it is the first request with the id in the state the writes meet,
  and the lookup here cannot fail after a first part that passed.
\<close>

definition resolveCommit :: "env \<Rightarrow> button \<Rightarrow> string \<Rightarrow> string \<Rightarrow> state \<Rightarrow> result" where
  "resolveCommit e b action reqId s =
     (case List.find (\<lambda>p. id_req p = reqId) (pending s) of
        None \<Rightarrow> (s, HandlerError, [])
      | Some req \<Rightarrow>
          if action = ''accept'' then
            let accounts' = linkIgn req (accounts s);
                req' = settle ''approved'' (id_user (button_user b)) (now_resolvedAt e) req;
                pending' = updateFirst (\<lambda>p. id_req p = reqId) (\<lambda>_. req') (pending s)
            in (\<lparr> pending = pending',
                  accounts = accounts',
                  PENDING_FILE = writeJson (pending_write_ok e) (pending_json pending')
                                   (PENDING_FILE s),
                  ACCOUNTS_FILE = writeJson (accounts_write_ok e) (accounts_json accounts')
                                    (ACCOUNTS_FILE s) \<rparr>,
                Approved (targetTag req) (ign req),
                editMessage e req' ''approved'')
          else
            let req' = settle ''rejected'' (id_user (button_user b)) (now_resolvedAt e) req;
                pending' = updateFirst (\<lambda>p. id_req p = reqId) (\<lambda>_. req') (pending s)
            in (s\<lparr> pending := pending',
                   PENDING_FILE := writeJson (pending_write_ok e) (pending_json pending')
                                     (PENDING_FILE s) \<rparr>,
                Rejected (targetTag req),
                editMessage e req' ''rejected''))"

text \<open>The two parts run with no other handler in between.\<close>

definition resolve :: "config \<Rightarrow> env \<Rightarrow> button \<Rightarrow> string \<Rightarrow> string \<Rightarrow> state \<Rightarrow> result" where
  "resolve cfg e b action reqId s =
     (case resolveCheck cfg e b reqId s of
        Some out \<Rightarrow> (s, out, [])
      | None \<Rightarrow> resolveCommit e b action reqId s)"

definition handleButton :: "config \<Rightarrow> env \<Rightarrow> button \<Rightarrow> state \<Rightarrow> result" where
  "handleButton cfg e b s =
     (case parseCustomId (customId b) of
        None \<Rightarrow> (s, Ignored, [])
      | Some (action, reqId) \<Rightarrow> resolve cfg e b action reqId s)"

text \<open>
  The button handler up to its await and from its await on. Between the two another
  handler may run: the event loop takes the next interaction while this one waits.
\<close>

datatype suspended = Returned outcome | Awaiting string string

definition beginButton :: "config \<Rightarrow> env \<Rightarrow> button \<Rightarrow> state \<Rightarrow> suspended" where
  "beginButton cfg e b s =
     (case parseCustomId (customId b) of
        None \<Rightarrow> Returned Ignored
      | Some (action, reqId) \<Rightarrow>
          (case resolveCheck cfg e b reqId s of
             Some out \<Rightarrow> Returned out
           | None \<Rightarrow> Awaiting action reqId))"

fun finishButton :: "env \<Rightarrow> button \<Rightarrow> suspended \<Rightarrow> state \<Rightarrow> result" where
  "finishButton e b (Returned out) s = (s, out, [])"
| "finishButton e b (Awaiting action reqId) s = resolveCommit e b action reqId s"

text \<open>
  Two presses whose handlers overlap: the second press arrives while the handler of the
  first is at its await, so both run their first part on the same state; then the first
  goes on, then the second. The result is the final state and the two outcomes.
\<close>

definition overlappingPresses ::
  "config \<Rightarrow> env \<Rightarrow> button \<Rightarrow> env \<Rightarrow> button \<Rightarrow> state \<Rightarrow> state \<times> outcome \<times> outcome" where
  "overlappingPresses cfg e1 b1 e2 b2 s =
     (let first = beginButton cfg e1 b1 s;
          second = beginButton cfg e2 b2 s;
          r1 = finishButton e1 b1 first s;
          r2 = finishButton e2 b2 second (fst r1)
      in (fst r2, fst (snd r1), fst (snd r2)))"

text \<open>The handler of \<open>Events.InteractionCreate\<close>.\<close>

fun interactionCreate :: "config \<Rightarrow> env \<Rightarrow> interaction \<Rightarrow> state \<Rightarrow> result" where
  "interactionCreate cfg e (ChatInputCommand c) s = handleCommand cfg e c s"
| "interactionCreate cfg e (Button b) s = handleButton cfg e b s"
| "interactionCreate cfg e OtherInteraction s = (s, Ignored, [])"

section \<open>Startup\<close>

text \<open>
  The answers of the outside world during the \<open>ClientReady\<close> handler, for the request at
  each position of \<open>pending\<close>: whether \<open>messages.fetch\<close> returns its message, the id of
  the message \<open>send\<close> returns (\<open>None\<close> when it throws), whether the file write goes through.
\<close>

record ready_env =
  ready_channel :: channel_result
  message_fetched :: "nat \<Rightarrow> bool"
  sent_id :: "nat \<Rightarrow> string option"
  write_ok :: "nat \<Rightarrow> bool"

text \<open>
  The loop \<open>for (const req of pending.filter(p => p.status === 'pending'))\<close>. The filtered
  array holds the very objects of \<open>pending\<close>, so the loop walks \<open>pending\<close> in order and
  skips the requests of another status; \<open>seen\<close> are the elements already passed. The
  \<open>try\<close> is around the whole loop: an embed that cannot be built, or an exception of
  \<open>send\<close>, leaves the loop for the handler's \<open>catch\<close> and the requests that follow
  are not looked at.
\<close>

fun restoreLoop ::
  "ready_env \<Rightarrow> request list \<Rightarrow> request list \<Rightarrow> file_state
     \<Rightarrow> request list \<times> file_state \<times> channel_action list" where
  "restoreLoop e seen [] f = (seen, f, [])"
| "restoreLoop e seen (req # rest) f =
     (if status req \<noteq> ''pending'' then restoreLoop e (seen @ [req]) rest f
      else if truthyStr (messageId req) \<and> message_fetched e (length seen)
        then restoreLoop e (seen @ [req]) rest f
      else (case createEmbedForReq req ''pending'' of
              None \<Rightarrow> (seen @ req # rest, f, [])
            | Some em \<Rightarrow>
                (case sent_id e (length seen) of
                   None \<Rightarrow> (seen @ req # rest, f, [])
                 | Some sent \<Rightarrow>
                     (let req' = req\<lparr> messageId := Some sent \<rparr>;
                          f' = writeJson (write_ok e (length seen))
                                 (pending_json (seen @ req' # rest)) f
                      in case restoreLoop e (seen @ [req']) rest f' of
                           (ps, f'', acts) \<Rightarrow>
                             (ps, f'', Send em (actionRow (id_req req) False) # acts)))))"

text \<open>The part of the \<open>ClientReady\<close> handler that follows the command registration.\<close>

definition clientReady :: "config \<Rightarrow> ready_env \<Rightarrow> state \<Rightarrow> state \<times> channel_action list" where
  "clientReady cfg e s =
     (if \<not> truthyStr (ADMIN_CHANNEL_ID cfg) then (s, [])
      else (case ready_channel e of
              TextBased \<Rightarrow>
                (case restoreLoop e [] (pending s) (PENDING_FILE s) of
                   (ps, f, acts) \<Rightarrow> (s\<lparr> pending := ps, PENDING_FILE := f \<rparr>, acts))
            | _ \<Rightarrow> (s, [])))"

section \<open>The \<open>/tp\<close> command\<close>

text \<open>
  Modelled from the spec: \<open>isIgnLinkedTo(accountId, ign)\<close>, which the source files do not
  hold; a lookup in the account collection with an exact, case-sensitive match of the name.
\<close>

definition isIgnLinkedTo :: "(string \<times> account) list \<Rightarrow> string \<Rightarrow> string \<Rightarrow> bool" where
  "isIgnLinkedTo acc accountId name =
     (case map_of acc accountId of None \<Rightarrow> False | Some a \<Rightarrow> name \<in> set (igns a))"

datatype teleport_error = Forbidden | NotLinked

text \<open>
  Modelled from the spec: \<open>request-teleport(callerId, callerIsAdmin, targetAccountId, ign)\<close>,
  the handler of \<open>/tp\<close>, which the source files do not hold (their interaction handler
  returns at once for every command but \<open>link\<close>). The result is the error, or the
  emission: the destination and the text sent to it.
\<close>

definition request_teleport ::
  "(string \<times> account) list \<Rightarrow> string \<Rightarrow> string \<Rightarrow> bool \<Rightarrow> string \<Rightarrow> string
     \<Rightarrow> teleport_error + (string \<times> string) list" where
  "request_teleport acc destination callerId callerIsAdmin targetAccountId name =
     (if \<not> callerIsAdmin \<and> targetAccountId \<noteq> callerId then Inl Forbidden
      else if \<not> isIgnLinkedTo acc targetAccountId name then Inl NotLinked
      else Inr [(destination, ''.tp instapearl '' @ name)])"

section \<open>Notions used to state and prove the properties\<close>

text \<open>
  The definitions of this section are not parts of the source: they name what the
  properties below speak about.

  Reading a decimal numeral back, the inverse of \<open>decimal\<close>.
\<close>

definition isDigit :: "char \<Rightarrow> bool" where
  "isDigit c = (c \<in> set ''0123456789'')"

definition digitValue :: "char \<Rightarrow> nat" where
  "digitValue c = of_char c - 48"

definition parseDecimal :: "string \<Rightarrow> nat" where
  "parseDecimal s = foldl (\<lambda>acc c. 10 * acc + digitValue c) 0 s"

text \<open>A resolution that went through: the request was approved or rejected.\<close>

fun isSuccess :: "outcome \<Rightarrow> bool" where
  "isSuccess (Approved tag name) = True"
| "isSuccess (Rejected tag) = True"
| "isSuccess other = False"

text \<open>No name occurs twice in the list of an account.\<close>

definition noDuplicateIgns :: "(string \<times> account) list \<Rightarrow> bool" where
  "noDuplicateIgns acc = list_all (\<lambda>(k, a). distinct (igns a)) acc"

text \<open>
  The handler run on a sequence of interactions, one after the other, each with the
  answers the outside world gives during it.
\<close>

fun run :: "config \<Rightarrow> (env \<times> interaction) list \<Rightarrow> state \<Rightarrow> state" where
  "run cfg [] s = s"
| "run cfg ((e, i) # evs) s = run cfg evs (fst (interactionCreate cfg e i s))"







section \<open>Concrete inputs\<close>

definition user_alice :: user where
  "user_alice = \<lparr> id_user = ''111'', username_user = ''alice'', discriminator = ''0'' \<rparr>"

definition user_bob :: user where
  "user_bob = \<lparr> id_user = ''222'', username_user = ''bob'', discriminator = ''0'' \<rparr>"

definition config_roles :: config where
  "config_roles = \<lparr> ADMIN_CHANNEL_ID = Some ''900'', ADMIN_ROLE_IDS = [''777''] \<rparr>"

definition empty_state :: state where
  "empty_state = \<lparr> pending = [], accounts = [], PENDING_FILE = NoFile, ACCOUNTS_FILE = NoFile \<rparr>"

definition env_one :: env where
  "env_one = \<lparr> now_reqId = 1700000000000, random_draw = 4242, now_createdAt = 1700000000000,
       now_resolvedAt = 1700000005000, pending_write_ok = True, pending_rewrite_ok = True,
       accounts_write_ok = True, channel = TextBased, send_result = Some ''501'',
       fetched_member = None, message_edited = True \<rparr>"

definition env_two :: env where
  "env_two = env_one\<lparr> send_result := Some ''502'' \<rparr>"

definition link_command :: "user \<Rightarrow> string \<Rightarrow> command" where
  "link_command u name =
     \<lparr> commandName = ''link'', command_user = u, option_ign = name, option_account = None \<rparr>"

definition member_admin :: member where
  "member_admin = \<lparr> roles_cache = Some [''777''], permissions = Some [] \<rparr>"

definition member_plain :: member where
  "member_plain = \<lparr> roles_cache = Some [''555''], permissions = Some [ManageGuild] \<rparr>"

definition press :: "string \<Rightarrow> user \<Rightarrow> member \<Rightarrow> button" where
  "press cid u m =
     \<lparr> customId = cid, button_user = u, interaction_member = Some m, guildId = Some ''1'' \<rparr>"

definition user_carol :: user where
  "user_carol = \<lparr> id_user = ''333'', username_user = ''carol'', discriminator = ''0'' \<rparr>"

definition env_three :: env where
  "env_three = env_one\<lparr> now_reqId := 1700000009000, random_draw := 17,
       now_createdAt := 1700000009000, send_result := Some ''503'' \<rparr>"

definition state_one :: state where
  "state_one = fst (handleCommand config_roles env_one (link_command user_alice ''Notch'') empty_state)"

definition accounts_alice :: "(string \<times> account) list" where
  "accounts_alice = [(''111'', \<lparr> username = ''alice#0'', id_acc = ''111'', igns = [''Notch''] \<rparr>)]"

definition state_two :: state where
  "state_two = fst (interactionCreate config_roles env_one
     (Button (press ''link_accept_1700000000000-4242'' user_carol member_admin)) state_one)"

definition state_three_bob :: state where
  "state_three_bob = fst (handleCommand config_roles env_three (link_command user_bob ''Notch'') state_two)"

definition state_four_bob :: state where
  "state_four_bob = fst (interactionCreate config_roles env_three
     (Button (press ''link_accept_1700000009000-17'' user_carol member_admin)) state_three_bob)"

definition state_three_alice :: state where
  "state_three_alice = fst (handleCommand config_roles env_three (link_command user_alice ''Notch'') state_two)"

definition state_four_alice :: state where
  "state_four_alice = fst (interactionCreate config_roles env_three
     (Button (press ''link_accept_1700000009000-17'' user_carol member_admin)) state_three_alice)"

definition request_alice :: request where
  "request_alice = \<lparr> id_req = ''1700000000000-4242'', requesterId = ''111'',
        requesterTag = ''alice#0'', targetId = ''111'', targetTag = ''alice#0'', ign = ''Notch'',
        status = ''pending'', createdAt = 1700000000000, messageId = Some ''501'',
        resolvedBy = None, resolvedAt = None \<rparr>"

definition state_both :: state where
  "state_both = fst (handleCommand config_roles env_three (link_command user_alice ''Notch'') state_one)"

definition state_both_first :: state where
  "state_both_first = fst (interactionCreate config_roles env_one
     (Button (press ''link_accept_1700000000000-4242'' user_carol member_admin)) state_both)"

definition state_both_second :: state where
  "state_both_second = fst (interactionCreate config_roles env_three
     (Button (press ''link_accept_1700000009000-17'' user_carol member_admin)) state_both_first)"

definition request_alice_later :: request where
  "request_alice_later = \<lparr> id_req = ''1700000009000-17'', requesterId = ''111'',
        requesterTag = ''alice#0'', targetId = ''111'', targetTag = ''alice#0'', ign = ''Notch'',
        status = ''pending'', createdAt = 1700000009000, messageId = Some ''503'',
        resolvedBy = None, resolvedAt = None \<rparr>"

definition request_bob_live :: request where
  "request_bob_live = \<lparr> id_req = ''1700000009000-17'', requesterId = ''222'',
        requesterTag = ''bob#0'', targetId = ''222'', targetTag = ''bob#0'', ign = ''Steve'',
        status = ''pending'', createdAt = 1700000009000, messageId = Some ''503'',
        resolvedBy = None, resolvedAt = None \<rparr>"

definition request_carol_lost :: request where
  "request_carol_lost = \<lparr> id_req = ''1700000012000-9'', requesterId = ''333'',
        requesterTag = ''carol#0'', targetId = ''333'', targetTag = ''carol#0'', ign = ''Alex'',
        status = ''pending'', createdAt = 1700000012000, messageId = None,
        resolvedBy = None, resolvedAt = None \<rparr>"



definition ready_env_ok :: ready_env where
  "ready_env_ok = \<lparr> ready_channel = TextBased, message_fetched = (\<lambda>i. i = 1),
       sent_id = (\<lambda>i. Some ''601''), write_ok = (\<lambda>i. True) \<rparr>"

definition state_collided :: state where
  "state_collided = fst (handleCommand config_roles env_two (link_command user_bob ''Steve'') state_one)"

definition request_bob_twin :: request where
  "request_bob_twin = \<lparr> id_req = ''1700000000000-4242'', requesterId = ''222'',
        requesterTag = ''bob#0'', targetId = ''222'', targetTag = ''bob#0'', ign = ''Steve'',
        status = ''pending'', createdAt = 1700000000000, messageId = None,
        resolvedBy = None, resolvedAt = None \<rparr>"

definition state_long :: state where
  "state_long = fst (handleCommand config_roles env_one
     (link_command user_alice (replicate 1023 (CHR ''a''))) empty_state)"


definition request_long :: request where
  "request_long = \<lparr> id_req = ''1700000000000-4242'', requesterId = ''111'',
        requesterTag = ''alice#0'', targetId = ''111'', targetTag = ''alice#0'',
        ign = replicate 1023 (CHR ''a''),
        status = ''pending'', createdAt = 1700000000000, messageId = None,
        resolvedBy = None, resolvedAt = None \<rparr>"


lemmas example_defs =
  user_alice_def user_bob_def config_roles_def empty_state_def env_one_def env_two_def
  link_command_def member_admin_def member_plain_def press_def user_carol_def env_three_def

lemmas embed_defs = createEmbedForReq_def embedFields_def validField_def

section \<open>Decimal numerals and request ids\<close>

lemma below_ten: "(k::nat) < 10 \<Longrightarrow> k \<in> {0, 1, 2, 3, 4, 5, 6, 7, 8, 9}"
  by auto

lemma digit_isDigit: "isDigit (digit d)"
proof -
  have "d mod 10 \<in> {0, 1, 2, 3, 4, 5, 6, 7, 8, 9}" by (rule below_ten) simp
  then have "isDigit (''0123456789'' ! (d mod 10))"
    by (elim insertE emptyE) (simp_all add: isDigit_def)
  then show ?thesis by (simp add: digit_def)
qed

lemma decimal_digits: "\<forall>c \<in> set (decimal n). isDigit c"
proof (induction n rule: decimal.induct)
  case (1 n)
  show ?case
  proof (cases "n < 10")
    case True
    then show ?thesis by (subst decimal.simps) (simp add: digit_isDigit)
  next
    case False
    with 1 show ?thesis by (subst decimal.simps) (simp add: digit_isDigit)
  qed
qed

lemma digitValue_digit: "d < 10 \<Longrightarrow> digitValue (digit d) = d"
proof -
  assume "d < 10"
  then have "d \<in> {0, 1, 2, 3, 4, 5, 6, 7, 8, 9}" by (rule below_ten)
  then show ?thesis unfolding digit_def digitValue_def by auto
qed

lemma parseDecimal_decimal: "parseDecimal (decimal n) = n"
proof (induction n rule: decimal.induct)
  case (1 n)
  show ?case
  proof (cases "n < 10")
    case True
    then show ?thesis by (subst decimal.simps) (simp add: parseDecimal_def digitValue_digit)
  next
    case False
    then have "parseDecimal (decimal (n div 10)) = n div 10" using 1 by simp
    then show ?thesis using False
      by (subst decimal.simps) (simp add: parseDecimal_def digitValue_digit)
  qed
qed

lemma decimal_inj: "decimal m = decimal n \<Longrightarrow> m = n"
  by (metis parseDecimal_decimal)

lemma separator_splits_alike:
  assumes "c \<notin> set xs" "c \<notin> set xs'" "xs @ c # ys = xs' @ c # ys'"
  shows "xs = xs' \<and> ys = ys'"
  using assms
proof (induction xs arbitrary: xs')
  case Nil
  then show ?case by (cases xs') auto
next
  case (Cons a xs)
  then show ?case by (cases xs') auto
qed

lemma dash_not_digit: "\<not> isDigit (CHR ''-'')"
  by (simp add: isDigit_def)

lemma underscore_not_digit: "\<not> isDigit (CHR ''_'')"
  by (simp add: isDigit_def)

lemma mkReqId_inj: "mkReqId t k = mkReqId t' k' \<longleftrightarrow> t = t' \<and> k = k'"
proof
  assume eq: "mkReqId t k = mkReqId t' k'"
  have a: "CHR ''-'' \<notin> set (decimal t)" using decimal_digits dash_not_digit by blast
  have b: "CHR ''-'' \<notin> set (decimal t')" using decimal_digits dash_not_digit by blast
  from eq have "decimal t @ CHR ''-'' # decimal k = decimal t' @ CHR ''-'' # decimal k'"
    by (simp add: mkReqId_def)
  from separator_splits_alike [OF a b this] show "t = t' \<and> k = k'"
    by (auto dest: decimal_inj)
qed simp

lemma mkReqId_no_underscore: "CHR ''_'' \<notin> set (mkReqId t k)"
  using decimal_digits underscore_not_digit by (auto simp: mkReqId_def)

lemma decimal_example_now: "decimal 1700000000000 = ''1700000000000''"
  by (simp add: decimal.simps digit_def)

lemma decimal_example_draw: "decimal 4242 = ''4242''"
  by (simp add: decimal.simps digit_def)

lemma mkReqId_example: "mkReqId 1700000000000 4242 = ''1700000000000-4242''"
  by (simp add: mkReqId_def decimal_example_now decimal_example_draw)

text \<open>
  Claim C3, as stated, fails: two \<open>/link\<close> submissions that read the same millisecond
  and draw the same number get the same id, and both records are stored.
\<close>

theorem same_millisecond_same_draw_collide:
  "map id_req (pending (fst (handleCommand config_roles env_two (link_command user_bob ''Steve'')
      (fst (handleCommand config_roles env_one (link_command user_alice ''Notch'')
              empty_state)))))
   = [''1700000000000-4242'', ''1700000000000-4242'']"
  by (simp add: example_defs embed_defs handleCommand_def newRequest_def mkReqId_example userTag_def
        trim_def isWhiteSpace_def Let_def)

text \<open>
  Claim C3, amended: the id of a new request is determined by the millisecond read and the
  number drawn, and by nothing else; two submissions get different ids exactly when they
  differ in one of the two.
\<close>

theorem request_id_equal_iff:
  "(id_req (newRequest e c) = id_req (newRequest e' c'))
     = (now_reqId e = now_reqId e' \<and> random_draw e = random_draw e')"
  by (simp add: newRequest_def Let_def mkReqId_inj)

theorem request_id_equal_iff_witness:
  "id_req (newRequest env_one (link_command user_alice ''Notch''))
     = id_req (newRequest env_two (link_command user_bob ''Steve''))
   \<and> id_req (newRequest env_one (link_command user_alice ''Notch''))
     \<noteq> id_req (newRequest (env_one\<lparr> random_draw := 4243 \<rparr>) (link_command user_alice ''Notch''))"
  using request_id_equal_iff [of env_one "link_command user_alice ''Notch''" env_two
          "link_command user_bob ''Steve''"]
        request_id_equal_iff [of env_one "link_command user_alice ''Notch''"
          "env_one\<lparr> random_draw := 4243 \<rparr>" "link_command user_alice ''Notch''"]
  by (simp add: env_one_def env_two_def)

section \<open>The action tag\<close>

lemma splitStr_no_sep: "sep \<notin> set s \<Longrightarrow> splitStr sep s = [s]"
  by (induction s) auto

lemma parse_accept:
  "CHR ''_'' \<notin> set rid \<Longrightarrow> parseCustomId (''link_accept_'' @ rid) = Some (''accept'', rid)"
  by (simp add: parseCustomId_def startsWith_def splitStr_no_sep)

lemma parse_reject:
  "CHR ''_'' \<notin> set rid \<Longrightarrow> parseCustomId (''link_reject_'' @ rid) = Some (''reject'', rid)"
  by (simp add: parseCustomId_def startsWith_def splitStr_no_sep)

lemma parse_tags:
  "parseCustomId (''link_accept_'' @ mkReqId t k) = Some (''accept'', mkReqId t k)"
  "parseCustomId (''link_reject_'' @ mkReqId t k) = Some (''reject'', mkReqId t k)"
  by (rule parse_accept parse_reject, rule mkReqId_no_underscore)+

section \<open>Loading a collection\<close>

text \<open>
  Claim C8, as stated, fails: a file that holds a number, or a string, is given back as
  that value and not as the empty collection.
\<close>

theorem readJson_non_collection_counterexample:
  "readJson (Holds (JNum 42)) pending_default \<noteq> pending_default
   \<and> readJson (Holds (JStr ''x'')) accounts_default \<noteq> accounts_default"
  by (simp add: pending_default_def accounts_default_def)

text \<open>
  Claim C8, amended: \<open>readJson\<close> answers for every state of the file. It gives the default
  when the file is missing, unreadable, empty or not JSON, and when it holds \<open>null\<close>,
  \<open>false\<close>, \<open>0\<close> or the empty string; it gives back a stored array or object, so what
  \<open>writeJson\<close> last wrote; every other value that is truthy is given back as it is.
\<close>

theorem readJson_default_or_stored:
  "readJson NoFile d = d \<and> readJson ReadFails d = d \<and> readJson EmptyText d = d
   \<and> readJson BadJson d = d
   \<and> readJson (Holds JNull) d = d \<and> readJson (Holds (JBool False)) d = d
   \<and> readJson (Holds (JNum 0)) d = d \<and> readJson (Holds (JStr [])) d = d
   \<and> (is_collection j \<longrightarrow> readJson (Holds j) d = j \<and> readJson (writeJson True j f) d = j)
   \<and> (\<not> is_collection j' \<and> truthy j' \<longrightarrow> readJson (Holds j') d = j')"
  by (cases j) (simp_all add: writeJson_def)

theorem readJson_default_or_stored_witness:
  "is_collection (pending_json []) \<and> \<not> is_collection (JBool True) \<and> truthy (JBool True)
   \<and> readJson (writeJson True (pending_json []) BadJson) pending_default = pending_json []
   \<and> readJson (Holds (JBool True)) pending_default = JBool True
   \<and> readJson BadJson pending_default = JArr []"
  using readJson_default_or_stored [of pending_default "pending_json []" BadJson "JBool True"]
  by (simp add: pending_json_def pending_default_def)

section \<open>Submitting a request\<close>

lemma trim_blank:
  assumes "\<forall>ch \<in> set s. isWhiteSpace ch"
  shows "trim s = []"
proof -
  have d: "dropWhile isWhiteSpace s = []" using assms by (simp add: dropWhile_eq_Nil_conv)
  show ?thesis unfolding trim_def d by simp
qed

lemma state_one_eq:
  "state_one = \<lparr> pending = [\<lparr> id_req = ''1700000000000-4242'', requesterId = ''111'',
        requesterTag = ''alice#0'', targetId = ''111'', targetTag = ''alice#0'', ign = ''Notch'',
        status = ''pending'', createdAt = 1700000000000, messageId = Some ''501'',
        resolvedBy = None, resolvedAt = None \<rparr>],
      accounts = [],
      PENDING_FILE = Holds (JArr [JObj [(''id'', JStr ''1700000000000-4242''),
        (''requesterId'', JStr ''111''), (''requesterTag'', JStr ''alice#0''),
        (''targetId'', JStr ''111''), (''targetTag'', JStr ''alice#0''),
        (''ign'', JStr ''Notch''), (''status'', JStr ''pending''),
        (''createdAt'', JNum 1700000000000), (''messageId'', JStr ''501'')]]),
      ACCOUNTS_FILE = NoFile \<rparr>"
  by (simp add: state_one_def example_defs embed_defs handleCommand_def newRequest_def mkReqId_example
        Let_def writeJson_def pending_json_def request_json_def userTag_def trim_def isWhiteSpace_def)

text \<open>
  Claim C2, as stated, fails: a name of three spaces is trimmed to the empty string and
  the request is stored, written to the file and sent to the admins like any other.
\<close>

theorem blank_ign_is_stored:
  "fst (snd (handleCommand config_roles env_one (link_command user_alice ''   '') empty_state))
     = Submitted
   \<and> map ign (pending (fst (handleCommand config_roles env_one (link_command user_alice ''   '')
        empty_state))) = [[]]
   \<and> PENDING_FILE (fst (handleCommand config_roles env_one (link_command user_alice ''   '')
        empty_state))
     = Holds (JArr [JObj [(''id'', JStr ''1700000000000-4242''),
        (''requesterId'', JStr ''111''), (''requesterTag'', JStr ''alice#0''),
        (''targetId'', JStr ''111''), (''targetTag'', JStr ''alice#0''),
        (''ign'', JStr []), (''status'', JStr ''pending''),
        (''createdAt'', JNum 1700000000000), (''messageId'', JStr ''501'')]])"
  by (simp add: example_defs embed_defs handleCommand_def newRequest_def mkReqId_example
        Let_def writeJson_def pending_json_def request_json_def userTag_def trim_def isWhiteSpace_def)

text \<open>
  Claim C2, amended: every \<open>/link\<close> submission appends one pending record whose name is
  the trimmed argument, the empty string when the argument is empty or white space only;
  the handler has no validation branch, and when the writes go through the file holds the
  collection with the new record.
\<close>

theorem link_appends_trimmed_record:
  assumes "commandName c = ''link''"
  shows "pending (fst (handleCommand cfg e c s))
      = pending s @ [if fst (snd (handleCommand cfg e c s)) = Submitted
                     then (newRequest e c)\<lparr> messageId := send_result e \<rparr>
                     else newRequest e c]
    \<and> ign (newRequest e c) = trim (option_ign c)
    \<and> status (newRequest e c) = ''pending''
    \<and> ((\<forall>ch \<in> set (option_ign c). isWhiteSpace ch) \<longrightarrow> ign (newRequest e c) = [])
    \<and> fst (snd (handleCommand cfg e c s)) \<in> {NotConfigured, ChannelMissing, HandlerError, Submitted}
    \<and> (pending_write_ok e \<and> pending_rewrite_ok e \<longrightarrow>
          PENDING_FILE (fst (handleCommand cfg e c s))
            = Holds (pending_json (pending (fst (handleCommand cfg e c s)))))"
proof -
  have 1: "pending (fst (handleCommand cfg e c s))
      = pending s @ [if fst (snd (handleCommand cfg e c s)) = Submitted
                     then (newRequest e c)\<lparr> messageId := send_result e \<rparr>
                     else newRequest e c]"
    using assms
    by (auto simp: handleCommand_def Let_def split: channel_result.splits option.splits)
  have 2: "ign (newRequest e c) = trim (option_ign c)" "status (newRequest e c) = ''pending''"
    by (simp_all add: newRequest_def Let_def)
  have 3: "(\<forall>ch \<in> set (option_ign c). isWhiteSpace ch) \<longrightarrow> ign (newRequest e c) = []"
    using 2 trim_blank by simp
  have 4: "fst (snd (handleCommand cfg e c s)) \<in> {NotConfigured, ChannelMissing, HandlerError, Submitted}"
    using assms
    by (auto simp: handleCommand_def Let_def split: channel_result.splits option.splits)
  have 5: "pending_write_ok e \<and> pending_rewrite_ok e \<longrightarrow>
          PENDING_FILE (fst (handleCommand cfg e c s))
            = Holds (pending_json (pending (fst (handleCommand cfg e c s))))"
    using assms
    by (auto simp: handleCommand_def Let_def writeJson_def split: channel_result.splits option.splits)
  from 1 2 3 4 5 show ?thesis by blast
qed

theorem link_appends_trimmed_record_witness:
  "commandName (link_command user_alice ''   '') = ''link''
   \<and> list_all isWhiteSpace (option_ign (link_command user_alice ''   ''))
   \<and> pending_write_ok env_one \<and> pending_rewrite_ok env_one
   \<and> ign (newRequest env_one (link_command user_alice ''   '')) = []
   \<and> PENDING_FILE (fst (handleCommand config_roles env_one (link_command user_alice ''   '') empty_state))
      = Holds (pending_json (pending (fst (handleCommand config_roles env_one (link_command user_alice ''   '') empty_state))))"
proof -
  have h: "commandName (link_command user_alice ''   '') = ''link''"
    by (simp add: link_command_def)
  have w: "\<forall>ch \<in> set (option_ign (link_command user_alice ''   '')). isWhiteSpace ch"
    by (simp add: link_command_def isWhiteSpace_def)
  have ok: "pending_write_ok env_one \<and> pending_rewrite_ok env_one"
    by (simp add: env_one_def)
  have w': "list_all isWhiteSpace (option_ign (link_command user_alice ''   ''))"
    using w by (simp add: list_all_iff)
  from link_appends_trimmed_record [OF h, of config_roles env_one empty_state] h w w' ok
  show ?thesis by blast
qed

section \<open>Teleport\<close>

text \<open>
  Claim C4: a caller who is not an admin and names another account is refused with
  \<open>Forbidden\<close> and nothing is emitted; past that check, a target without exactly this
  name gets \<open>NotLinked\<close>; otherwise the text \<open>.tp instapearl <ign>\<close> goes to the
  destination. The lookup is membership of the name in the target's list.
\<close>

theorem teleport_checks:
  "(\<not> callerIsAdmin \<and> targetAccountId \<noteq> callerId \<longrightarrow>
      request_teleport acc dest callerId callerIsAdmin targetAccountId name = Inl Forbidden)
   \<and> ((callerIsAdmin \<or> targetAccountId = callerId) \<and> \<not> isIgnLinkedTo acc targetAccountId name \<longrightarrow>
      request_teleport acc dest callerId callerIsAdmin targetAccountId name = Inl NotLinked)
   \<and> ((callerIsAdmin \<or> targetAccountId = callerId) \<and> isIgnLinkedTo acc targetAccountId name \<longrightarrow>
      request_teleport acc dest callerId callerIsAdmin targetAccountId name
        = Inr [(dest, ''.tp instapearl '' @ name)])
   \<and> (isIgnLinkedTo acc targetAccountId name
        = (\<exists>entry. map_of acc targetAccountId = Some entry \<and> name \<in> set (igns entry)))"
  by (auto simp: request_teleport_def isIgnLinkedTo_def split: option.splits)

theorem teleport_checks_witness:
  "request_teleport accounts_alice ''800'' ''222'' False ''111'' ''Notch'' = Inl Forbidden
   \<and> request_teleport accounts_alice ''800'' ''111'' False ''111'' ''notch'' = Inl NotLinked
   \<and> request_teleport accounts_alice ''800'' ''111'' False ''111'' ''Notch''
       = Inr [(''800'', ''.tp instapearl Notch'')]"
  using teleport_checks [of False "''111''" "''222''" accounts_alice "''800''" "''Notch''"]
        teleport_checks [of False "''111''" "''111''" accounts_alice "''800''" "''notch''"]
        teleport_checks [of False "''111''" "''111''" accounts_alice "''800''" "''Notch''"]
  by (simp add: accounts_alice_def isIgnLinkedTo_def)

text \<open>The interaction handler of the source answers no command but \<open>link\<close>.\<close>

lemma other_commands_ignored:
  "commandName c \<noteq> ''link'' \<Longrightarrow> interactionCreate cfg e (ChatInputCommand c) s = (s, Ignored, [])"
  by (simp add: handleCommand_def)

section \<open>Authorisation of the resolver\<close>

text \<open>
  Claim C6: when the request of a button is pending and the resolver has no admin rights,
  the handler replies with the refusal and returns the state as it was: the request stays
  pending and no collection or file changes. With admin roles configured the rights are a
  role of the member among them; with none configured they are the Administrator or the
  ManageGuild permission.
\<close>

theorem unauthorized_resolver_refused:
  assumes "parseCustomId (customId b) = Some (action, rid)"
    and "List.find (\<lambda>p. id_req p = rid) (pending s) = Some req"
    and "status req = ''pending''"
    and "\<not> hasAdmin cfg (resolverMember e b)"
  shows "interactionCreate cfg e (Button b) s = (s, Unauthorized, [])
    \<and> reply_content Unauthorized
        = Some ''You do not have permission to approve or reject link requests.''
    \<and> (ADMIN_ROLE_IDS cfg \<noteq> [] \<longrightarrow>
         hasAdmin cfg m = (\<exists>mem rs. m = Some mem \<and> roles_cache mem = Some rs
                              \<and> set rs \<inter> set (ADMIN_ROLE_IDS cfg) \<noteq> {}))
    \<and> (ADMIN_ROLE_IDS cfg = [] \<longrightarrow>
         hasAdmin cfg m = (\<exists>mem ps. m = Some mem \<and> permissions mem = Some ps
                              \<and> (Administrator \<in> set ps \<or> ManageGuild \<in> set ps)))"
proof -
  have "interactionCreate cfg e (Button b) s = (s, Unauthorized, [])"
    using assms by (simp add: handleButton_def resolve_def resolveCheck_def)
  moreover have "ADMIN_ROLE_IDS cfg \<noteq> [] \<longrightarrow>
         hasAdmin cfg m = (\<exists>mem rs. m = Some mem \<and> roles_cache mem = Some rs
                              \<and> set rs \<inter> set (ADMIN_ROLE_IDS cfg) \<noteq> {})"
    by (auto simp: hasAdmin_def split: option.splits)
  moreover have "ADMIN_ROLE_IDS cfg = [] \<longrightarrow>
         hasAdmin cfg m = (\<exists>mem ps. m = Some mem \<and> permissions mem = Some ps
                              \<and> (Administrator \<in> set ps \<or> ManageGuild \<in> set ps))"
    by (auto simp: hasAdmin_def has_def split: option.splits)
  ultimately show ?thesis by simp
qed

lemma parse_example: "parseCustomId ''link_accept_1700000000000-4242'' = Some (''accept'', ''1700000000000-4242'')"
  using parse_tags(1) [of 1700000000000 4242] by (simp add: mkReqId_example)

theorem unauthorized_resolver_refused_witness:
  "\<not> hasAdmin config_roles (resolverMember env_one (press ''link_accept_1700000000000-4242'' user_bob member_plain))
   \<and> interactionCreate config_roles env_one
       (Button (press ''link_accept_1700000000000-4242'' user_bob member_plain)) state_one
     = (state_one, Unauthorized, [])"
  using unauthorized_resolver_refused [of "press ''link_accept_1700000000000-4242'' user_bob member_plain"
          "''accept''" "''1700000000000-4242''" state_one
          "hd (pending state_one)" config_roles env_one]
        parse_example
  by (simp add: state_one_eq press_def member_plain_def config_roles_def hasAdmin_def resolverMember_def)

section \<open>Resolving a request\<close>

lemma find_updateFirst:
  "List.find P xs = Some x \<Longrightarrow> P y \<Longrightarrow> List.find P (updateFirst P (\<lambda>_. y) xs) = Some y"
  by (induction xs) (auto split: if_splits)

lemma find_Some_holds: "List.find P xs = Some x \<Longrightarrow> P x"
  by (induction xs) (auto split: if_splits)

lemma button_resolves:
  "parseCustomId (customId b) = Some (action, rid) \<Longrightarrow>
   handleButton cfg e b s = resolve cfg e b action rid s"
  by (simp add: handleButton_def)

lemma resolve_cases:
  assumes "List.find (\<lambda>p. id_req p = rid) (pending s) = Some req"
  shows "resolve cfg e b action rid s =
     (if status req \<noteq> ''pending'' then (s, AlreadyResolved (status req), [])
      else if \<not> hasAdmin cfg (resolverMember e b) then (s, Unauthorized, [])
      else if action = ''accept'' then
        (\<lparr> pending = updateFirst (\<lambda>p. id_req p = rid)
               (\<lambda>_. settle ''approved'' (id_user (button_user b)) (now_resolvedAt e) req) (pending s),
            accounts = linkIgn req (accounts s),
            PENDING_FILE = writeJson (pending_write_ok e)
               (pending_json (updateFirst (\<lambda>p. id_req p = rid)
                  (\<lambda>_. settle ''approved'' (id_user (button_user b)) (now_resolvedAt e) req) (pending s)))
               (PENDING_FILE s),
            ACCOUNTS_FILE = writeJson (accounts_write_ok e) (accounts_json (linkIgn req (accounts s)))
               (ACCOUNTS_FILE s) \<rparr>,
         Approved (targetTag req) (ign req),
         editMessage e (settle ''approved'' (id_user (button_user b)) (now_resolvedAt e) req) ''approved'')
      else
        (s\<lparr> pending := updateFirst (\<lambda>p. id_req p = rid)
               (\<lambda>_. settle ''rejected'' (id_user (button_user b)) (now_resolvedAt e) req) (pending s),
            PENDING_FILE := writeJson (pending_write_ok e)
               (pending_json (updateFirst (\<lambda>p. id_req p = rid)
                  (\<lambda>_. settle ''rejected'' (id_user (button_user b)) (now_resolvedAt e) req) (pending s)))
               (PENDING_FILE s) \<rparr>,
         Rejected (targetTag req),
         editMessage e (settle ''rejected'' (id_user (button_user b)) (now_resolvedAt e) req) ''rejected''))"
  using assms by (simp add: resolve_def resolveCheck_def resolveCommit_def Let_def)

lemma resolve_not_found:
  "List.find (\<lambda>p. id_req p = rid) (pending s) = None \<Longrightarrow> resolve cfg e b action rid s = (s, NotFound, [])"
  by (simp add: resolve_def resolveCheck_def)

text \<open>What a successful resolution leaves behind.\<close>

lemma success_settles:
  assumes "isSuccess (fst (snd (resolve cfg e b action rid s)))"
  shows "\<exists>req. List.find (\<lambda>p. id_req p = rid) (pending s) = Some req
           \<and> status req = ''pending'' \<and> hasAdmin cfg (resolverMember e b)
           \<and> List.find (\<lambda>p. id_req p = rid) (pending (fst (resolve cfg e b action rid s)))
               = Some (settle (if action = ''accept'' then ''approved'' else ''rejected'')
                         (id_user (button_user b)) (now_resolvedAt e) req)"
proof (cases "List.find (\<lambda>p. id_req p = rid) (pending s)")
  case None
  with assms show ?thesis by (simp add: resolve_not_found)
next
  case (Some req)
  have idr: "id_req req = rid" using find_Some_holds [OF Some] .
  have st: "status req = ''pending''" and adm: "hasAdmin cfg (resolverMember e b)"
    using assms by (auto simp: resolve_cases [OF Some] split: if_splits)
  have "List.find (\<lambda>p. id_req p = rid) (pending (fst (resolve cfg e b action rid s)))
               = Some (settle (if action = ''accept'' then ''approved'' else ''rejected'')
                         (id_user (button_user b)) (now_resolvedAt e) req)"
    using st adm idr find_updateFirst [OF Some, of "settle s' u t req" for s' u t]
    by (simp add: resolve_cases [OF Some] settle_def)
  with Some st adm show ?thesis by blast
qed

text \<open>
  Presses handled in turn, each handler at its end before the next starts: once a press
  has approved or rejected a request, the next press for the same request id, whatever
  its action and whoever presses, is answered with ``This request was already
  approved/rejected.'' and returns the state unchanged. For a pending request and two
  authorised presses, in either order the first goes through and the second does not.
\<close>

lemma presses_in_turn:
  assumes p1: "parseCustomId (customId b1) = Some (a1, rid)"
      and p2: "parseCustomId (customId b2) = Some (a2, rid)"
  shows "(isSuccess (fst (snd (interactionCreate cfg e1 (Button b1) s))) \<longrightarrow>
            interactionCreate cfg e2 (Button b2) (fst (interactionCreate cfg e1 (Button b1) s))
              = (fst (interactionCreate cfg e1 (Button b1) s),
                 AlreadyResolved (if a1 = ''accept'' then ''approved'' else ''rejected''), [])
            \<and> reply_content (AlreadyResolved (if a1 = ''accept'' then ''approved'' else ''rejected''))
              = Some (''This request was already ''
                       @ (if a1 = ''accept'' then ''approved'' else ''rejected'') @ ''.''))
    \<and> ((\<exists>req. List.find (\<lambda>p. id_req p = rid) (pending s) = Some req \<and> status req = ''pending'')
         \<and> hasAdmin cfg (resolverMember e1 b1) \<and> hasAdmin cfg (resolverMember e2 b2) \<longrightarrow>
            isSuccess (fst (snd (interactionCreate cfg e1 (Button b1) s)))
          \<and> fst (snd (interactionCreate cfg e2 (Button b2)
                         (fst (interactionCreate cfg e1 (Button b1) s))))
              = AlreadyResolved (if a1 = ''accept'' then ''approved'' else ''rejected'')
          \<and> isSuccess (fst (snd (interactionCreate cfg e2 (Button b2) s)))
          \<and> fst (snd (interactionCreate cfg e1 (Button b1)
                         (fst (interactionCreate cfg e2 (Button b2) s))))
              = AlreadyResolved (if a2 = ''accept'' then ''approved'' else ''rejected''))"
proof -
  have after: "interactionCreate cfg e' (Button b') (fst (interactionCreate cfg e (Button b) s))
              = (fst (interactionCreate cfg e (Button b) s),
                 AlreadyResolved (if a = ''accept'' then ''approved'' else ''rejected''), [])"
    if ok: "isSuccess (fst (snd (interactionCreate cfg e (Button b) s)))"
      and p: "parseCustomId (customId b) = Some (a, rid)"
      and p': "parseCustomId (customId b') = Some (a', rid)"
    for e e' b b' a a'
  proof -
    from ok have "isSuccess (fst (snd (resolve cfg e b a rid s)))"
      by (simp add: button_resolves [OF p])
    from success_settles [OF this] obtain req where
      f: "List.find (\<lambda>p. id_req p = rid) (pending (fst (resolve cfg e b a rid s)))
               = Some (settle (if a = ''accept'' then ''approved'' else ''rejected'')
                         (id_user (button_user b)) (now_resolvedAt e) req)"
      by blast
    show ?thesis
      by (simp add: button_resolves [OF p] button_resolves [OF p'] resolve_cases [OF f] settle_def)
  qed
  have first: "isSuccess (fst (snd (interactionCreate cfg e (Button b) s)))"
    if "List.find (\<lambda>p. id_req p = rid) (pending s) = Some req" "status req = ''pending''"
       "hasAdmin cfg (resolverMember e b)" "parseCustomId (customId b) = Some (a, rid)"
    for e b a req
    using that by (simp add: button_resolves resolve_cases)
  have A: "isSuccess (fst (snd (interactionCreate cfg e1 (Button b1) s))) \<longrightarrow>
            interactionCreate cfg e2 (Button b2) (fst (interactionCreate cfg e1 (Button b1) s))
              = (fst (interactionCreate cfg e1 (Button b1) s),
                 AlreadyResolved (if a1 = ''accept'' then ''approved'' else ''rejected''), [])
            \<and> reply_content (AlreadyResolved (if a1 = ''accept'' then ''approved'' else ''rejected''))
              = Some (''This request was already ''
                       @ (if a1 = ''accept'' then ''approved'' else ''rejected'') @ ''.'')"
    using after [OF _ p1 p2] by simp
  have B: "(\<exists>req. List.find (\<lambda>p. id_req p = rid) (pending s) = Some req \<and> status req = ''pending'')
         \<and> hasAdmin cfg (resolverMember e1 b1) \<and> hasAdmin cfg (resolverMember e2 b2) \<longrightarrow>
            isSuccess (fst (snd (interactionCreate cfg e1 (Button b1) s)))
          \<and> fst (snd (interactionCreate cfg e2 (Button b2)
                         (fst (interactionCreate cfg e1 (Button b1) s))))
              = AlreadyResolved (if a1 = ''accept'' then ''approved'' else ''rejected'')
          \<and> isSuccess (fst (snd (interactionCreate cfg e2 (Button b2) s)))
          \<and> fst (snd (interactionCreate cfg e1 (Button b1)
                         (fst (interactionCreate cfg e2 (Button b2) s))))
              = AlreadyResolved (if a2 = ''accept'' then ''approved'' else ''rejected'')"
  proof (intro impI, elim conjE exE)
    fix req
    assume f: "List.find (\<lambda>p. id_req p = rid) (pending s) = Some req" and st: "status req = ''pending''"
      and h1: "hasAdmin cfg (resolverMember e1 b1)" and h2: "hasAdmin cfg (resolverMember e2 b2)"
    have s1: "isSuccess (fst (snd (interactionCreate cfg e1 (Button b1) s)))"
      using first [OF f st h1 p1] .
    have s2: "isSuccess (fst (snd (interactionCreate cfg e2 (Button b2) s)))"
      using first [OF f st h2 p2] .
    show "isSuccess (fst (snd (interactionCreate cfg e1 (Button b1) s)))
          \<and> fst (snd (interactionCreate cfg e2 (Button b2)
                         (fst (interactionCreate cfg e1 (Button b1) s))))
              = AlreadyResolved (if a1 = ''accept'' then ''approved'' else ''rejected'')
          \<and> isSuccess (fst (snd (interactionCreate cfg e2 (Button b2) s)))
          \<and> fst (snd (interactionCreate cfg e1 (Button b1)
                         (fst (interactionCreate cfg e2 (Button b2) s))))
              = AlreadyResolved (if a2 = ''accept'' then ''approved'' else ''rejected'')"
      using s1 s2 after [OF s1 p1 p2] after [OF s2 p2 p1] by simp
  qed
  from A B show ?thesis by blast
qed

subsection \<open>The scenario of two requests, evaluated\<close>

lemma mkReqId_example_later: "mkReqId 1700000009000 17 = ''1700000009000-17''"
  by (simp add: mkReqId_def decimal.simps digit_def)

lemma parse_example_later:
  "parseCustomId ''link_accept_1700000009000-17'' = Some (''accept'', ''1700000009000-17'')"
  using parse_tags(1) [of 1700000009000 17] by (simp add: mkReqId_example_later)

lemmas eval_defs =
  handleButton_def resolve_def resolveCheck_def resolveCommit_def embed_defs hasAdmin_def
  resolverMember_def press_def member_admin_def
  config_roles_def linkIgn_def settle_def linkTarget_def editMessage_def env_one_def
  env_three_def writeJson_def handleCommand_def newRequest_def link_command_def userTag_def
  user_alice_def user_bob_def user_carol_def trim_def isWhiteSpace_def Let_def

lemma state_one_pending: "pending state_one = [request_alice]" "accounts state_one = []"
  by (simp_all add: state_one_eq request_alice_def)

lemma state_two_eval:
  "pending state_two = [request_alice\<lparr> status := ''approved'', resolvedBy := Some ''333'',
                          resolvedAt := Some 1700000005000 \<rparr>]"
  "accounts state_two = [(''111'', \<lparr> username = ''alice#0'', id_acc = ''111'', igns = [''Notch''] \<rparr>)]"
  by (simp_all add: state_two_def state_one_eq request_alice_def parse_example eval_defs)

lemma state_three_bob_eval:
  "pending state_three_bob = pending state_two @
     [\<lparr> id_req = ''1700000009000-17'', requesterId = ''222'',
        requesterTag = ''bob#0'', targetId = ''222'', targetTag = ''bob#0'', ign = ''Notch'',
        status = ''pending'', createdAt = 1700000009000, messageId = Some ''503'',
        resolvedBy = None, resolvedAt = None \<rparr>]"
  "accounts state_three_bob = accounts state_two"
  by (simp_all add: state_three_bob_def mkReqId_example_later eval_defs)

lemma state_four_bob_eval:
  "accounts state_four_bob =
     [(''111'', \<lparr> username = ''alice#0'', id_acc = ''111'', igns = [''Notch''] \<rparr>),
      (''222'', \<lparr> username = ''bob#0'', id_acc = ''222'', igns = [''Notch''] \<rparr>)]"
  "fst (snd (interactionCreate config_roles env_three
     (Button (press ''link_accept_1700000009000-17'' user_carol member_admin)) state_three_bob))
   = Approved ''bob#0'' ''Notch''"
  by (simp_all add: state_four_bob_def state_three_bob_eval state_two_eval request_alice_def
        parse_example_later eval_defs)

lemma state_three_alice_eval:
  "pending state_three_alice = pending state_two @
     [\<lparr> id_req = ''1700000009000-17'', requesterId = ''111'',
        requesterTag = ''alice#0'', targetId = ''111'', targetTag = ''alice#0'', ign = ''Notch'',
        status = ''pending'', createdAt = 1700000009000, messageId = Some ''503'',
        resolvedBy = None, resolvedAt = None \<rparr>]"
  "accounts state_three_alice = accounts state_two"
  by (simp_all add: state_three_alice_def mkReqId_example_later eval_defs)

lemma state_four_alice_eval:
  "accounts state_four_alice =
     [(''111'', \<lparr> username = ''alice#0'', id_acc = ''111'', igns = [''Notch''] \<rparr>)]"
  "fst (snd (interactionCreate config_roles env_three
     (Button (press ''link_accept_1700000009000-17'' user_carol member_admin)) state_three_alice))
   = Approved ''alice#0'' ''Notch''"
  by (simp_all add: state_four_alice_def state_three_alice_eval state_two_eval request_alice_def
        parse_example_later eval_defs)

lemma parse_example_reject:
  "parseCustomId ''link_reject_1700000000000-4242'' = Some (''reject'', ''1700000000000-4242'')"
  using parse_tags(2) [of 1700000000000 4242] by (simp add: mkReqId_example)

lemma handleButton_parts:
  "handleButton cfg e b s = finishButton e b (beginButton cfg e b s) s"
  by (simp add: handleButton_def beginButton_def resolve_def split: option.splits)

text \<open>A request that is settled stays settled, whatever is handled afterwards, in turn.\<close>

lemma find_append_first:
  "List.find P xs = Some x \<Longrightarrow> List.find P (xs @ ys) = Some x"
  by (induction xs) (auto split: if_splits)

lemma find_updateFirst_other:
  "(\<And>x. Q x \<Longrightarrow> \<not> P x \<and> \<not> P (f x)) \<Longrightarrow> List.find P (updateFirst Q f xs) = List.find P xs"
  by (induction xs) auto

lemma settled_survives_interaction:
  assumes f: "List.find (\<lambda>p. id_req p = rid) (pending s) = Some req"
    and st: "status req \<noteq> ''pending''"
  shows "List.find (\<lambda>p. id_req p = rid) (pending (fst (interactionCreate cfg e i s))) = Some req"
proof (cases i)
  case (ChatInputCommand c)
  then show ?thesis
    using f find_append_first [OF f]
    by (auto simp: handleCommand_def Let_def split: channel_result.splits option.splits)
next
  case (Button b)
  show ?thesis
  proof (cases "parseCustomId (customId b)")
    case None
    with Button f show ?thesis by (simp add: handleButton_def)
  next
    case (Some ar)
    obtain action rid' where ar: "ar = (action, rid')" by (cases ar)
    have hb: "handleButton cfg e b s = resolve cfg e b action rid' s"
      using Some ar by (simp add: handleButton_def)
    show ?thesis
    proof (cases "List.find (\<lambda>p. id_req p = rid') (pending s)")
      case None
      with Button hb f show ?thesis by (simp add: resolve_not_found)
    next
      case found: (Some req')
      show ?thesis
      proof (cases "rid' = rid")
        case True
        with found f st Button hb show ?thesis by (simp add: resolve_cases)
      next
        case False
        have "List.find (\<lambda>p. id_req p = rid)
                (updateFirst (\<lambda>p. id_req p = rid') (\<lambda>_. settle st' who t req') (pending s))
              = List.find (\<lambda>p. id_req p = rid) (pending s)" for st' who t
          using False find_Some_holds [OF found]
          by (intro find_updateFirst_other) (auto simp: settle_def)
        with f Button hb show ?thesis by (simp add: resolve_cases [OF found])
      qed
    qed
  qed
next
  case OtherInteraction
  with f show ?thesis by simp
qed

lemma settled_survives_run:
  "List.find (\<lambda>p. id_req p = rid) (pending s) = Some req \<Longrightarrow> status req \<noteq> ''pending'' \<Longrightarrow>
   List.find (\<lambda>p. id_req p = rid) (pending (run cfg evs s)) = Some req"
proof (induction evs arbitrary: s)
  case Nil
  then show ?case by simp
next
  case (Cons ev evs)
  obtain e i where ev: "ev = (e, i)" by (cases ev)
  from Cons.prems show ?case
    by (simp add: ev Cons.IH settled_survives_interaction)
qed

text \<open>
  So, in turn, every later press for the id of a request that was approved or rejected
  is answered alike, whatever was handled in between.
\<close>

lemma later_presses_in_turn:
  assumes p1: "parseCustomId (customId b1) = Some (a1, rid)"
    and p2: "parseCustomId (customId b2) = Some (a2, rid)"
    and ok: "isSuccess (fst (snd (interactionCreate cfg e1 (Button b1) s)))"
  shows "interactionCreate cfg e2 (Button b2)
           (run cfg evs (fst (interactionCreate cfg e1 (Button b1) s)))
         = (run cfg evs (fst (interactionCreate cfg e1 (Button b1) s)),
            AlreadyResolved (if a1 = ''accept'' then ''approved'' else ''rejected''), [])"
proof -
  from ok have "isSuccess (fst (snd (resolve cfg e1 b1 a1 rid s)))"
    by (simp add: button_resolves [OF p1])
  from success_settles [OF this] obtain req where
    f: "List.find (\<lambda>p. id_req p = rid) (pending (fst (resolve cfg e1 b1 a1 rid s)))
          = Some (settle (if a1 = ''accept'' then ''approved'' else ''rejected'')
                    (id_user (button_user b1)) (now_resolvedAt e1) req)"
    by blast
  have nonp: "status (settle (if a1 = ''accept'' then ''approved'' else ''rejected'')
                    (id_user (button_user b1)) (now_resolvedAt e1) req) \<noteq> ''pending''"
    by (simp add: settle_def)
  have s1: "fst (handleButton cfg e1 b1 s) = fst (resolve cfg e1 b1 a1 rid s)"
    by (simp add: button_resolves [OF p1])
  have g: "List.find (\<lambda>p. id_req p = rid) (pending (run cfg evs (fst (resolve cfg e1 b1 a1 rid s))))
          = Some (settle (if a1 = ''accept'' then ''approved'' else ''rejected'')
                    (id_user (button_user b1)) (now_resolvedAt e1) req)"
    using settled_survives_run [OF f nonp, of cfg evs] .
  show ?thesis
    by (simp add: s1 button_resolves [OF p2] resolve_cases [OF g] settle_def)
qed

text \<open>
  Overlapping handlers: for a pending request and two authorised presses, both handlers
  pass the tests of the first part, and both write.
\<close>

lemma overlapping_presses_succeed:
  assumes p1: "parseCustomId (customId b1) = Some (a1, rid)"
    and p2: "parseCustomId (customId b2) = Some (a2, rid)"
    and f: "List.find (\<lambda>p. id_req p = rid) (pending s) = Some req"
    and st: "status req = ''pending''"
    and h1: "hasAdmin cfg (resolverMember e1 b1)" and h2: "hasAdmin cfg (resolverMember e2 b2)"
  shows "isSuccess (fst (snd (overlappingPresses cfg e1 b1 e2 b2 s)))
       \<and> isSuccess (snd (snd (overlappingPresses cfg e1 b1 e2 b2 s)))"
proof -
  have c1: "beginButton cfg e1 b1 s = Awaiting a1 rid" and c2: "beginButton cfg e2 b2 s = Awaiting a2 rid"
    using assms by (simp_all add: beginButton_def resolveCheck_def)
  have r1: "resolveCommit e1 b1 a1 rid s = resolve cfg e1 b1 a1 rid s"
    using f st h1 by (simp add: resolve_def resolveCheck_def)
  have ok1: "isSuccess (fst (snd (resolve cfg e1 b1 a1 rid s)))"
    using f st h1 by (simp add: resolve_cases)
  from success_settles [OF ok1] obtain req' where
    f': "List.find (\<lambda>p. id_req p = rid) (pending (fst (resolve cfg e1 b1 a1 rid s))) = Some req'"
    by blast
  have ok2: "isSuccess (fst (snd (resolveCommit e2 b2 a2 rid (fst (resolve cfg e1 b1 a1 rid s)))))"
    using f' by (simp add: resolveCommit_def Let_def)
  show ?thesis
    using ok1 ok2 by (simp add: overlappingPresses_def Let_def c1 c2 r1)
qed

text \<open>
  Claim C1 does not hold of the code. The claim: of two presses for one request exactly
  one goes through and the other is answered with the earlier outcome. The code: alice's
  request is pending; carol presses approve and bob presses reject while carol's handler
  is at its await. Both presses pass the status test, carol's is answered ``Approved'',
  bob's ``Rejected''; the request ends rejected and the name stays linked to the account.
\<close>

theorem overlapping_presses_both_succeed:
  "fst (snd (overlappingPresses config_roles
       env_one (press ''link_accept_1700000000000-4242'' user_carol member_admin)
       env_three (press ''link_reject_1700000000000-4242'' user_bob member_admin) state_one))
     = Approved ''alice#0'' ''Notch''
   \<and> snd (snd (overlappingPresses config_roles
       env_one (press ''link_accept_1700000000000-4242'' user_carol member_admin)
       env_three (press ''link_reject_1700000000000-4242'' user_bob member_admin) state_one))
     = Rejected ''alice#0''
   \<and> pending (fst (overlappingPresses config_roles
       env_one (press ''link_accept_1700000000000-4242'' user_carol member_admin)
       env_three (press ''link_reject_1700000000000-4242'' user_bob member_admin) state_one))
     = [request_alice\<lparr> status := ''rejected'', resolvedBy := Some ''222'',
                        resolvedAt := Some 1700000005000 \<rparr>]
   \<and> accounts (fst (overlappingPresses config_roles
       env_one (press ''link_accept_1700000000000-4242'' user_carol member_admin)
       env_three (press ''link_reject_1700000000000-4242'' user_bob member_admin) state_one))
     = [(''111'', \<lparr> username = ''alice#0'', id_acc = ''111'', igns = [''Notch''] \<rparr>)]"
  by (simp add: overlappingPresses_def beginButton_def state_one_pending request_alice_def
        parse_example parse_example_reject eval_defs)

section \<open>Approval and the account collection\<close>

text \<open>
  Claim C7, as stated, fails: after alice's and then bob's request for the same name were
  approved, the name is linked to bob's account and still to alice's.
\<close>

theorem ign_linked_to_two_accounts:
  "fst (snd (interactionCreate config_roles env_three
      (Button (press ''link_accept_1700000009000-17'' user_carol member_admin)) state_three_bob))
     = Approved ''bob#0'' ''Notch''
   \<and> isIgnLinkedTo (accounts state_four_bob) ''222'' ''Notch''
   \<and> isIgnLinkedTo (accounts state_four_bob) ''111'' ''Notch''"
  using state_four_bob_eval by (simp add: isIgnLinkedTo_def)

lemma isIgnLinkedTo_linkIgn:
  "isIgnLinkedTo (linkIgn req acc) B n =
     (if B = linkTarget req then n = ign req \<or> isIgnLinkedTo acc B n else isIgnLinkedTo acc B n)"
  by (auto simp: linkIgn_def isIgnLinkedTo_def Let_def update_conv' split: option.splits)

lemma approved_effect:
  assumes "parseCustomId (customId b) = Some (action, rid)"
    and "List.find (\<lambda>p. id_req p = rid) (pending s) = Some req"
    and "interactionCreate cfg e (Button b) s = (s', Approved tag name, acts)"
  shows "accounts s' = linkIgn req (accounts s)"
  using assms(3) by (auto simp: button_resolves [OF assms(1)] resolve_cases [OF assms(2)] split: if_splits)

text \<open>
  Claim C7, amended: after an approval the name of the request is linked to its target
  account, by exact match: a name is linked to the target afterwards exactly when it is
  the approved name or was linked before. For every other account the lookup answers as
  it did before the approval, so it is false there exactly when it was false before.
\<close>

theorem approval_links_target_only:
  assumes "parseCustomId (customId b) = Some (action, rid)"
    and "List.find (\<lambda>p. id_req p = rid) (pending s) = Some req"
    and "interactionCreate cfg e (Button b) s = (s', Approved tag name, acts)"
  shows "isIgnLinkedTo (accounts s') (linkTarget req) (ign req)
    \<and> (\<forall>n. isIgnLinkedTo (accounts s') (linkTarget req) n
             = (n = ign req \<or> isIgnLinkedTo (accounts s) (linkTarget req) n))
    \<and> (\<forall>B n. B \<noteq> linkTarget req \<longrightarrow>
             isIgnLinkedTo (accounts s') B n = isIgnLinkedTo (accounts s) B n)"
  by (simp add: approved_effect [OF assms] isIgnLinkedTo_linkIgn)

lemma interaction_result: "interactionCreate cfg e i s
   = (fst (interactionCreate cfg e i s), fst (snd (interactionCreate cfg e i s)),
      snd (snd (interactionCreate cfg e i s)))"
  by simp

theorem approval_links_target_only_witness:
  "isIgnLinkedTo (accounts state_four_bob) ''222'' ''Notch''
   \<and> isIgnLinkedTo (accounts state_four_bob) ''222'' ''notch'' = False
   \<and> isIgnLinkedTo (accounts state_four_bob) ''333'' ''Notch''
       = isIgnLinkedTo (accounts state_three_bob) ''333'' ''Notch''"
proof -
  let ?b = "press ''link_accept_1700000009000-17'' user_carol member_admin"
  let ?r = "\<lparr> id_req = ''1700000009000-17'', requesterId = ''222'',
        requesterTag = ''bob#0'', targetId = ''222'', targetTag = ''bob#0'', ign = ''Notch'',
        status = ''pending'', createdAt = 1700000009000, messageId = Some ''503'',
        resolvedBy = None, resolvedAt = None \<rparr>"
  have p: "parseCustomId (customId ?b) = Some (''accept'', ''1700000009000-17'')"
    by (simp add: press_def parse_example_later)
  have f: "List.find (\<lambda>p. id_req p = ''1700000009000-17'') (pending state_three_bob) = Some ?r"
    by (simp add: state_three_bob_eval state_two_eval request_alice_def)
  have r: "interactionCreate config_roles env_three (Button ?b) state_three_bob
      = (state_four_bob, Approved ''bob#0'' ''Notch'',
         snd (snd (interactionCreate config_roles env_three (Button ?b) state_three_bob)))"
    using state_four_bob_eval(2) interaction_result [of config_roles env_three "Button ?b" state_three_bob]
    by (simp add: state_four_bob_def)
  have old: "isIgnLinkedTo (accounts state_three_bob) ''222'' ''notch'' = False"
    by (simp add: state_three_bob_eval state_two_eval isIgnLinkedTo_def)
  from approval_links_target_only [OF p f r] old show ?thesis by (simp add: linkTarget_def)
qed

section \<open>No duplicate names\<close>

lemma update_entries:
  "(k', a) \<in> set (AList.update k v al) \<Longrightarrow> (k', a) \<in> set al \<or> (k' = k \<and> a = v)"
  by (induction al) (auto split: if_splits)

lemma noDuplicateIgns_linkIgn:
  assumes "noDuplicateIgns acc"
  shows "noDuplicateIgns (linkIgn req acc)"
proof -
  have e: "distinct (igns a)" if "map_of acc (linkTarget req) = Some a" for a
    using assms map_of_SomeD [OF that] by (auto simp: noDuplicateIgns_def list_all_iff)
  show ?thesis
    using assms e
    by (auto simp: noDuplicateIgns_def list_all_iff linkIgn_def Let_def dest!: update_entries split: option.splits)
qed

lemma count_list_distinct: "distinct xs \<Longrightarrow> x \<in> set xs \<Longrightarrow> count_list xs x = 1"
  by (induction xs) auto

lemma linkIgn_entry:
  "\<exists>a. map_of (linkIgn req acc) (linkTarget req) = Some a \<and> ign req \<in> set (igns a)"
  by (auto simp: linkIgn_def Let_def update_conv' split: option.splits)

lemma accounts_after_interaction:
  "accounts (fst (interactionCreate cfg e i s)) = accounts s
   \<or> (\<exists>req. accounts (fst (interactionCreate cfg e i s)) = linkIgn req (accounts s))"
proof (cases i)
  case (ChatInputCommand c)
  then show ?thesis
    by (auto simp: handleCommand_def Let_def split: channel_result.splits option.splits)
next
  case (Button b)
  show ?thesis
  proof (cases "parseCustomId (customId b)")
    case None
    with Button show ?thesis by (simp add: handleButton_def)
  next
    case (Some ar)
    obtain action rid where ar: "ar = (action, rid)" by (cases ar)
    show ?thesis
    proof (cases "List.find (\<lambda>p. id_req p = rid) (pending s)")
      case None
      with Button Some ar show ?thesis by (simp add: button_resolves resolve_not_found)
    next
      case (Some req)
      with Button \<open>parseCustomId (customId b) = Some ar\<close> ar show ?thesis
        by (auto simp: button_resolves resolve_cases)
    qed
  qed
next
  case OtherInteraction
  then show ?thesis by simp
qed

lemma noDuplicateIgns_interaction:
  "noDuplicateIgns (accounts s) \<Longrightarrow> noDuplicateIgns (accounts (fst (interactionCreate cfg e i s)))"
  using accounts_after_interaction [of cfg e i s] by (auto simp: noDuplicateIgns_linkIgn)

lemma noDuplicateIgns_run:
  "noDuplicateIgns (accounts s) \<Longrightarrow> noDuplicateIgns (accounts (run cfg evs s))"
  by (induction evs arbitrary: s) (auto simp: noDuplicateIgns_interaction)

lemma accounts_clientReady: "accounts (fst (clientReady cfg re s)) = accounts s"
  by (simp add: clientReady_def split: channel_result.splits prod.splits)

text \<open>
  Claim C5: when no account lists a name twice, none does after any interaction, after
  startup, or after any sequence of interactions, in particular from an empty account
  collection on; and after two approvals of the same name for the same account the
  account lists the name exactly once.
\<close>

theorem igns_stay_distinct:
  assumes "noDuplicateIgns (accounts s)"
  shows "noDuplicateIgns (accounts (fst (interactionCreate cfg e i s)))
    \<and> noDuplicateIgns (accounts (fst (clientReady cfg re s)))
    \<and> noDuplicateIgns (accounts (run cfg evs s))
    \<and> noDuplicateIgns (accounts (run cfg evs (s\<lparr> accounts := [] \<rparr>)))
    \<and> (parseCustomId (customId b1) = Some (a1, rid1)
        \<and> List.find (\<lambda>p. id_req p = rid1) (pending s) = Some r1
        \<and> interactionCreate cfg e1 (Button b1) s = (s1, Approved t1 n1, x1)
        \<and> parseCustomId (customId b2) = Some (a2, rid2)
        \<and> List.find (\<lambda>p. id_req p = rid2) (pending s1) = Some r2
        \<and> interactionCreate cfg e2 (Button b2) s1 = (s2, Approved t2 n2, x2)
        \<and> linkTarget r2 = linkTarget r1 \<and> ign r2 = ign r1
        \<longrightarrow> (\<exists>a. map_of (accounts s2) (linkTarget r1) = Some a
                  \<and> count_list (igns a) (ign r1) = 1))"
proof -
  have twice: "\<exists>a. map_of (accounts s2) (linkTarget r1) = Some a \<and> count_list (igns a) (ign r1) = 1"
    if p1: "parseCustomId (customId b1) = Some (a1, rid1)"
      and f1: "List.find (\<lambda>p. id_req p = rid1) (pending s) = Some r1"
      and i1: "interactionCreate cfg e1 (Button b1) s = (s1, Approved t1 n1, x1)"
      and p2: "parseCustomId (customId b2) = Some (a2, rid2)"
      and f2: "List.find (\<lambda>p. id_req p = rid2) (pending s1) = Some r2"
      and i2: "interactionCreate cfg e2 (Button b2) s1 = (s2, Approved t2 n2, x2)"
      and same: "linkTarget r2 = linkTarget r1" "ign r2 = ign r1"
  proof -
    have a1: "accounts s1 = linkIgn r1 (accounts s)" using approved_effect [OF p1 f1 i1] .
    have a2: "accounts s2 = linkIgn r2 (accounts s1)" using approved_effect [OF p2 f2 i2] .
    have inv2: "noDuplicateIgns (accounts s2)"
      using assms by (simp add: a1 a2 noDuplicateIgns_linkIgn)
    from linkIgn_entry [of r2 "accounts s1"] obtain a where
      a: "map_of (accounts s2) (linkTarget r1) = Some a" "ign r1 \<in> set (igns a)"
      by (auto simp: a2 same)
    from inv2 map_of_SomeD [OF a(1)] have "distinct (igns a)"
      by (auto simp: noDuplicateIgns_def list_all_iff)
    with a show ?thesis by (auto simp: count_list_distinct)
  qed
  have e: "noDuplicateIgns (accounts (s\<lparr> accounts := [] \<rparr>))" by (simp add: noDuplicateIgns_def list_all_iff)
  show ?thesis
    using assms twice noDuplicateIgns_run [OF e] 
    by (simp add: noDuplicateIgns_interaction noDuplicateIgns_run accounts_clientReady)
qed

lemma state_both_eval:
  "pending state_both = [request_alice, request_alice_later]" "accounts state_both = []"
  by (simp_all add: state_both_def state_one_pending request_alice_later_def
        mkReqId_example_later eval_defs)

lemma state_both_first_eval:
  "pending state_both_first = [request_alice\<lparr> status := ''approved'', resolvedBy := Some ''333'',
                          resolvedAt := Some 1700000005000 \<rparr>, request_alice_later]"
  "fst (snd (interactionCreate config_roles env_one
     (Button (press ''link_accept_1700000000000-4242'' user_carol member_admin)) state_both))
   = Approved ''alice#0'' ''Notch''"
  by (simp_all add: state_both_first_def state_both_eval request_alice_def request_alice_later_def
        parse_example eval_defs)

lemma state_both_second_eval:
  "fst (snd (interactionCreate config_roles env_three
     (Button (press ''link_accept_1700000009000-17'' user_carol member_admin)) state_both_first))
   = Approved ''alice#0'' ''Notch''"
  by (simp add: state_both_first_eval request_alice_def request_alice_later_def
        parse_example_later eval_defs)

theorem igns_stay_distinct_witness:
  "accounts state_both = []
   \<and> igns (the (map_of (accounts state_both_second) ''111'')) = [''Notch'']
   \<and> count_list (igns (the (map_of (accounts state_both_second) ''111''))) ''Notch'' = 1"
proof -
  let ?b1 = "press ''link_accept_1700000000000-4242'' user_carol member_admin"
  let ?b2 = "press ''link_accept_1700000009000-17'' user_carol member_admin"
  have inv: "noDuplicateIgns (accounts state_both)"
    by (simp add: state_both_eval noDuplicateIgns_def)
  have p1: "parseCustomId (customId ?b1) = Some (''accept'', ''1700000000000-4242'')"
    by (simp add: press_def parse_example)
  have p2: "parseCustomId (customId ?b2) = Some (''accept'', ''1700000009000-17'')"
    by (simp add: press_def parse_example_later)
  have f1: "List.find (\<lambda>p. id_req p = ''1700000000000-4242'') (pending state_both)
              = Some request_alice"
    by (simp add: state_both_eval request_alice_def)
  have f2: "List.find (\<lambda>p. id_req p = ''1700000009000-17'') (pending state_both_first)
              = Some request_alice_later"
    by (simp add: state_both_first_eval request_alice_def request_alice_later_def)
  have i1: "interactionCreate config_roles env_one (Button ?b1) state_both
      = (state_both_first, Approved ''alice#0'' ''Notch'',
         snd (snd (interactionCreate config_roles env_one (Button ?b1) state_both)))"
    using state_both_first_eval(2)
      interaction_result [of config_roles env_one "Button ?b1" state_both]
    by (simp add: state_both_first_def)
  have i2: "interactionCreate config_roles env_three (Button ?b2) state_both_first
      = (state_both_second, Approved ''alice#0'' ''Notch'',
         snd (snd (interactionCreate config_roles env_three (Button ?b2) state_both_first)))"
    using state_both_second_eval
      interaction_result [of config_roles env_three "Button ?b2" state_both_first]
    by (simp add: state_both_second_def)
  have same: "linkTarget request_alice_later = linkTarget request_alice"
     "ign request_alice_later = ign request_alice"
    by (simp_all add: linkTarget_def request_alice_def request_alice_later_def)
  have acc: "accounts state_both_second
     = [(''111'', \<lparr> username = ''alice#0'', id_acc = ''111'', igns = [''Notch''] \<rparr>)]"
    by (simp add: state_both_second_def state_both_first_def state_both_eval request_alice_def
          request_alice_later_def parse_example parse_example_later eval_defs)
  from igns_stay_distinct [OF inv, of config_roles env_one OtherInteraction ready_env_ok "[]" ?b1 "''accept''"
        "''1700000000000-4242''" request_alice env_one state_both_first] p1 p2 f1 f2 i1 i2 same
  have "\<exists>a. map_of (accounts state_both_second) (linkTarget request_alice) = Some a
              \<and> count_list (igns a) (ign request_alice) = 1"
    by blast
  then show ?thesis
    by (simp add: acc state_both_eval)
qed

section \<open>Startup reconciliation\<close>



















text \<open>
  A name of 1023 characters makes a field of 1025: the \<open>/link\<close> handler stores the
  request, cannot build the embed, sends nothing and replies with the error text.
\<close>

lemma long_ign_is_stored_unsent:
  "snd (handleCommand config_roles env_one
          (link_command user_alice (replicate 1023 (CHR ''a''))) empty_state)
     = (HandlerError, [])
   \<and> pending state_long = [request_long]"
  by (simp add: state_long_def request_long_def example_defs embed_defs handleCommand_def
        newRequest_def mkReqId_example userTag_def trim_def isWhiteSpace_def Let_def)






section \<open>The action tag and the lookup\<close>

lemma state_collided_eval:
  "pending state_collided = [request_alice, request_bob_twin\<lparr> messageId := Some ''502'' \<rparr>]"
  "snd (snd (handleCommand config_roles env_two (link_command user_bob ''Steve'') state_one))
     = [Send (Embed request_bob_twin ''pending'')
          [(''link_accept_1700000000000-4242'', False), (''link_reject_1700000000000-4242'', False)]]"
  by (simp_all add: state_collided_def state_one_pending request_bob_twin_def env_two_def
        mkReqId_example actionRow_def eval_defs)

text \<open>
  Claim C10, as stated, fails in its last part: when bob's request got the id alice's
  request has, the buttons of bob's message carry the same custom ids as those of
  alice's, and the press of its approve button approves alice's request, the first one
  with the id; bob's stays pending.
\<close>

theorem button_of_twin_resolves_first:
  "snd (snd (handleCommand config_roles env_two (link_command user_bob ''Steve'') state_one))
     = [Send (Embed request_bob_twin ''pending'')
          [(''link_accept_1700000000000-4242'', False), (''link_reject_1700000000000-4242'', False)]]
   \<and> pending state_collided = [request_alice, request_bob_twin\<lparr> messageId := Some ''502'' \<rparr>]
   \<and> fst (snd (interactionCreate config_roles env_one
        (Button (press ''link_accept_1700000000000-4242'' user_carol member_admin)) state_collided))
     = Approved ''alice#0'' ''Notch''
   \<and> pending (fst (interactionCreate config_roles env_one
        (Button (press ''link_accept_1700000000000-4242'' user_carol member_admin)) state_collided))
     = [request_alice\<lparr> status := ''approved'', resolvedBy := Some ''333'',
                        resolvedAt := Some 1700000005000 \<rparr>,
        request_bob_twin\<lparr> messageId := Some ''502'' \<rparr>]"
  using state_collided_eval
  by (simp add: request_alice_def request_bob_twin_def parse_example eval_defs)

lemma find_first_with_id:
  "\<forall>p \<in> set seen. id_req p \<noteq> rid \<Longrightarrow> id_req req = rid \<Longrightarrow>
   List.find (\<lambda>p. id_req p = rid) (seen @ req # rest) = Some req"
  by (induction seen) auto

text \<open>
  Claim C10, amended: for an id built by the \<open>/link\<close> handler, the custom ids of the
  two buttons parse back to the action and to that id, for the row the handler sends as
  well, and the button handler resolves with exactly that action and that id. The lookup
  gives the first request of the store with the id: the request of the message when no
  earlier request has the same id.
\<close>

theorem action_tag_roundtrip:
  "parseCustomId (''link_accept_'' @ mkReqId t k) = Some (''accept'', mkReqId t k)
   \<and> parseCustomId (''link_reject_'' @ mkReqId t k) = Some (''reject'', mkReqId t k)
   \<and> map (parseCustomId \<circ> fst) (actionRow (id_req (newRequest e c)) d)
       = [Some (''accept'', id_req (newRequest e c)), Some (''reject'', id_req (newRequest e c))]
   \<and> handleButton cfg e' (b\<lparr> customId := ''link_accept_'' @ mkReqId t k \<rparr>) s
       = resolve cfg e' (b\<lparr> customId := ''link_accept_'' @ mkReqId t k \<rparr>)
           ''accept'' (mkReqId t k) s
   \<and> handleButton cfg e' (b\<lparr> customId := ''link_reject_'' @ mkReqId t k \<rparr>) s
       = resolve cfg e' (b\<lparr> customId := ''link_reject_'' @ mkReqId t k \<rparr>)
           ''reject'' (mkReqId t k) s
   \<and> ((\<forall>p \<in> set seen. id_req p \<noteq> mkReqId t k) \<and> id_req req = mkReqId t k \<longrightarrow>
         List.find (\<lambda>p. id_req p = mkReqId t k) (seen @ req # rest) = Some req)"
  using parse_tags [of t k] parse_tags [of "now_reqId e" "random_draw e"]
  by (simp add: handleButton_def actionRow_def newRequest_def Let_def find_first_with_id)

theorem action_tag_roundtrip_witness:
  "parseCustomId ''link_accept_1700000000000-4242'' = Some (''accept'', ''1700000000000-4242'')
   \<and> parseCustomId ''link_reject_1700000000000-4242'' = Some (''reject'', ''1700000000000-4242'')
   \<and> List.find (\<lambda>p. id_req p = ''1700000000000-4242'')
        [request_bob_live, request_alice, request_carol_lost] = Some request_alice"
proof -
  have h: "list_all (\<lambda>p. id_req p \<noteq> mkReqId 1700000000000 4242) [request_bob_live]"
     "id_req request_alice = mkReqId 1700000000000 4242"
    by (simp_all add: mkReqId_example request_bob_live_def request_alice_def)
  then have h': "\<forall>p \<in> set [request_bob_live]. id_req p \<noteq> mkReqId 1700000000000 4242"
    by simp
  from action_tag_roundtrip [of 1700000000000 4242 _ _ _ _ _ _ _ "[request_bob_live]" request_alice
          "[request_carol_lost]"] h' h(2)
  show ?thesis by (simp add: mkReqId_example)
qed

end
